theory Spec2Isabelle
  imports Main "HOL-Library.Word"
begin

section \<open>Strings\<close>

text \<open>
  Two kinds of string occur in the client.  Header values, the base URL, the API key and
  request paths are byte strings (the platform's \<open>ByteString\<close>; paths are ASCII because every
  variable part goes through \<open>encodeURIComponent\<close>): they are modelled as \<^typ>\<open>string\<close>.
  Collection names, JSON text and everything inside a JSON value are general JavaScript
  strings, sequences of 16-bit code units: they are modelled as lists of 16-bit words.
\<close>

type_synonym jstring = "16 word list"

definition js :: "string \<Rightarrow> jstring" where
  "js s = map of_char s"

text \<open>\<open>String.prototype.startsWith\<close> and \<open>String.prototype.includes\<close> (named \<open>str_includes\<close> here).\<close>

fun startsWith :: "'a list \<Rightarrow> 'a list \<Rightarrow> bool" where
  "startsWith s [] = True"
| "startsWith [] (c # t) = False"
| "startsWith (d # s) (c # t) = (d = c \<and> startsWith s t)"

fun str_includes :: "'a list \<Rightarrow> 'a list \<Rightarrow> bool" where
  "str_includes [] t = (t = [])"
| "str_includes (d # s) t = (startsWith (d # s) t \<or> str_includes s t)"

section \<open>JavaScript values\<close>

text \<open>
  A number is \<open>NaN\<close> or a finite decimal \<open>Fin m d\<close>, standing for \<open>m / 10 ^ d\<close>; the
  canonical form has \<open>d = 0\<close> or \<open>m\<close> not divisible by ten, so an integer \<open>n\<close> is
  \<open>Fin n 0\<close>.  Numbers are kept exact: the rounding of IEEE doubles, the infinities and
  the sign of zero are outside the model.
\<close>

datatype jsnum = NaN | Fin int nat

datatype jsval =
    Undefined
  | Null
  | Bool bool
  | Number jsnum
  | Str jstring
  | Array "jsval list"
  | Object "(jstring \<times> jsval) list"

text \<open>\<open>ToBoolean\<close>, the test behind \<open>||\<close>, \<open>!\<close> and \<open>?:\<close>.\<close>

fun truthy :: "jsval \<Rightarrow> bool" where
  "truthy Undefined = False"
| "truthy Null = False"
| "truthy (Bool b) = b"
| "truthy (Number NaN) = False"
| "truthy (Number (Fin m d)) = (m \<noteq> 0)"
| "truthy (Str s) = (s \<noteq> [])"
| "truthy (Array xs) = True"
| "truthy (Object ms) = True"

definition js_or :: "jsval \<Rightarrow> jsval \<Rightarrow> jsval" where
  "js_or a b = (if truthy a then a else b)"

text \<open>
  Objects are association lists in property order.  \<open>obj_define\<close> is \<open>CreateDataProperty\<close>:
  an existing key keeps its place and takes the new value, a new key goes to the end.
  \<open>spread\<close> copies the properties of a source list onto a target, as \<open>{...a, ...b}\<close> does.
  (The rule that array-index keys are enumerated first is not modelled; it changes the order
  of the properties only, never the value found under a key.)
\<close>

fun obj_define :: "'k \<Rightarrow> 'v \<Rightarrow> ('k \<times> 'v) list \<Rightarrow> ('k \<times> 'v) list" where
  "obj_define k v [] = [(k, v)]"
| "obj_define k v ((k', v') # ms) =
     (if k' = k then (k, v) # ms else (k', v') # obj_define k v ms)"

definition spread :: "('k \<times> 'v) list \<Rightarrow> ('k \<times> 'v) list \<Rightarrow> ('k \<times> 'v) list" where
  "spread target source = foldl (\<lambda>acc (k, v). obj_define k v acc) target source"

section \<open>Numbers and text\<close>

definition digit_char :: "nat \<Rightarrow> char" where
  "digit_char d = char_of (48 + d)"

function digits_of :: "nat \<Rightarrow> string" where
  "digits_of n = (if n < 10 then [digit_char n]
                  else digits_of (n div 10) @ [digit_char (n mod 10)])"
  by pat_completeness auto
termination
  by (relation "measure id") auto

definition is_digit :: "char \<Rightarrow> bool" where
  "is_digit c = (48 \<le> (of_char c :: nat) \<and> (of_char c :: nat) \<le> 57)"

definition nat_of_digits :: "string \<Rightarrow> nat" where
  "nat_of_digits ds = foldl (\<lambda>a c. 10 * a + (of_char c - 48)) 0 ds"

text \<open>
  \<open>Number::toString\<close> (radix 10) on the decimal \<open>m / 10 ^ d\<close>: with \<open>s\<close> the digits of
  \<open>\<bar>m\<bar>\<close> without trailing zeros, \<open>k\<close> their number and \<open>n\<close> the position of the decimal
  point, the four layouts of the standard.
\<close>

definition strip_zeros :: "string \<Rightarrow> string" where
  "strip_zeros ds = rev (dropWhile (\<lambda>c. c = CHR ''0'') (rev ds))"

definition exp_part :: "int \<Rightarrow> string" where
  "exp_part x = CHR ''e'' # (if x < 0 then CHR ''-'' else CHR ''+'') # digits_of (nat \<bar>x\<bar>)"

fun number_to_string :: "jsnum \<Rightarrow> string" where
  "number_to_string NaN = ''NaN''"
| "number_to_string (Fin m d) =
     (if m = 0 then ''0''
      else
        let ds = digits_of (nat \<bar>m\<bar>);
            s = strip_zeros ds;
            k = int (length s);
            n = int (length ds) - int d;
            body =
              (if k \<le> n \<and> n \<le> 21 then s @ replicate (nat (n - k)) (CHR ''0'')
               else if 0 < n \<and> n \<le> 21 then take (nat n) s @ ''.'' @ drop (nat n) s
               else if - 6 < n \<and> n \<le> 0 then ''0.'' @ replicate (nat (- n)) (CHR ''0'') @ s
               else if k = 1 then s @ exp_part (n - 1)
               else take 1 s @ ''.'' @ drop 1 s @ exp_part (n - 1))
        in (if m < 0 then ''-'' else []) @ body)"

text \<open>
  \<open>parseInt(string, 10)\<close>: leading white space is skipped, one sign is read, then the
  longest run of decimal digits; no digit at all gives \<open>NaN\<close>.
\<close>

definition is_ws :: "char \<Rightarrow> bool" where
  "is_ws c = ((of_char c :: nat) \<in> {9, 10, 11, 12, 13, 32, 160})"

definition parseInt :: "string \<Rightarrow> jsnum" where
  "parseInt inputString =
     (let S = dropWhile is_ws inputString;
          neg = (S \<noteq> [] \<and> hd S = CHR ''-'');
          S' = (if S \<noteq> [] \<and> (hd S = CHR ''+'' \<or> hd S = CHR ''-'') then tl S else S);
          Z = takeWhile is_digit S'
      in if Z = [] then NaN
         else Fin ((if neg then - 1 else 1) * int (nat_of_digits Z)) 0)"

section \<open>Errors\<close>

text \<open>
  Modelled from the spec: the error classes of \<open>utils/errors\<close> (the module is imported by
  the client but is not among the sources).  The spec's taxonomy is ConfigurationError,
  AuthenticationError, RateLimitError (carrying the retry-after seconds) and ApiError
  (\<open>QdrantApiError\<close>, carrying the message and the HTTP status); each constructor keeps the
  arguments the code passes to \<open>new\<close>.  The remaining constructors are JavaScript's own
  errors: \<open>Error\<close> as thrown by \<open>validateCredentials\<close>, and the errors of the platform
  functions, which the client lets through unchanged.
\<close>

datatype error =
    Error string
  | TypeError string
  | SyntaxError string
  | URIError string
  | ConfigurationError string
  | AuthenticationError string
  | RateLimitError string jsnum
  | QdrantApiError jsval nat

fun error_message :: "error \<Rightarrow> jsval" where
  "error_message (Error m) = Str (js m)"
| "error_message (TypeError m) = Str (js m)"
| "error_message (SyntaxError m) = Str (js m)"
| "error_message (URIError m) = Str (js m)"
| "error_message (ConfigurationError m) = Str (js m)"
| "error_message (AuthenticationError m) = Str (js m)"
| "error_message (RateLimitError m r) = Str (js m)"
| "error_message (QdrantApiError m s) = m"

section \<open>Percent-encoding\<close>

text \<open>
  \<open>encodeURIComponent\<close>: the unreserved characters (letters, digits and \<open>- _ . ! ~ * ' ( )\<close>)
  stay; every other code point is written as the percent-escaped bytes of its UTF-8
  encoding, in upper-case hexadecimal.  A surrogate code unit that is not part of a pair
  makes the function throw a URIError.
\<close>

definition unreserved :: "16 word \<Rightarrow> bool" where
  "unreserved c =
     ((0x41 \<le> c \<and> c \<le> 0x5A) \<or> (0x61 \<le> c \<and> c \<le> 0x7A) \<or> (0x30 \<le> c \<and> c \<le> 0x39)
      \<or> c \<in> {0x2D, 0x5F, 0x2E, 0x21, 0x7E, 0x2A, 0x27, 0x28, 0x29})"

definition hex_digit :: "nat \<Rightarrow> char" where
  "hex_digit n = (if n < 10 then char_of (48 + n) else char_of (55 + n))"

definition pct :: "nat \<Rightarrow> string" where
  "pct b = [CHR ''%'', hex_digit (b div 16), hex_digit (b mod 16)]"

definition utf8 :: "nat \<Rightarrow> nat list" where
  "utf8 cp =
     (if cp < 0x80 then [cp]
      else if cp < 0x800 then [0xC0 + cp div 64, 0x80 + cp mod 64]
      else if cp < 0x10000 then
        [0xE0 + cp div 4096, 0x80 + (cp div 64) mod 64, 0x80 + cp mod 64]
      else
        [0xF0 + cp div 262144, 0x80 + (cp div 4096) mod 64,
         0x80 + (cp div 64) mod 64, 0x80 + cp mod 64])"

definition pct_utf8 :: "nat \<Rightarrow> string" where
  "pct_utf8 cp = concat (map pct (utf8 cp))"

definition is_lead_surrogate :: "16 word \<Rightarrow> bool" where
  "is_lead_surrogate c = (0xD800 \<le> c \<and> c \<le> 0xDBFF)"

definition is_trail_surrogate :: "16 word \<Rightarrow> bool" where
  "is_trail_surrogate c = (0xDC00 \<le> c \<and> c \<le> 0xDFFF)"

definition pair_code_point :: "16 word \<Rightarrow> 16 word \<Rightarrow> nat" where
  "pair_code_point c d = (unat c - 0xD800) * 0x400 + (unat d - 0xDC00) + 0x10000"

definition uri_malformed :: error where
  "uri_malformed = URIError ''URI malformed''"

fun encodeURIComponent :: "jstring \<Rightarrow> error + string" where
  "encodeURIComponent [] = Inr []"
| "encodeURIComponent (c # cs) =
     (if unreserved c then
        map_sum id ((#) (char_of (unat c))) (encodeURIComponent cs)
      else if is_trail_surrogate c then Inl uri_malformed
      else if is_lead_surrogate c then
        (case cs of
           [] \<Rightarrow> Inl uri_malformed
         | d # ds \<Rightarrow>
             if is_trail_surrogate d then
               map_sum id ((@) (pct_utf8 (pair_code_point c d))) (encodeURIComponent ds)
             else Inl uri_malformed)
      else map_sum id ((@) (pct_utf8 (unat c))) (encodeURIComponent cs))"











section \<open>JSON\<close>

subsection \<open>\<open>JSON.stringify\<close>\<close>

text \<open>
  \<open>QuoteJSONString\<close>: the quote, the backslash and the control characters are escaped,
  and so is a surrogate code unit that is not part of a pair; everything else is copied.
\<close>

definition hex_lower :: "nat \<Rightarrow> 16 word" where
  "hex_lower n = (if n < 10 then of_nat (48 + n) else of_nat (87 + n))"

definition unicode_escape :: "16 word \<Rightarrow> jstring" where
  "unicode_escape c =
     (let n = unat c in
      [0x5C, 0x75, hex_lower (n div 4096), hex_lower ((n div 256) mod 16),
       hex_lower ((n div 16) mod 16), hex_lower (n mod 16)])"

fun quote_chars :: "jstring \<Rightarrow> jstring" where
  "quote_chars [] = []"
| "quote_chars (c # cs) =
     (if c = 0x08 then [0x5C, 0x62] @ quote_chars cs
      else if c = 0x09 then [0x5C, 0x74] @ quote_chars cs
      else if c = 0x0A then [0x5C, 0x6E] @ quote_chars cs
      else if c = 0x0C then [0x5C, 0x66] @ quote_chars cs
      else if c = 0x0D then [0x5C, 0x72] @ quote_chars cs
      else if c = 0x22 then [0x5C, 0x22] @ quote_chars cs
      else if c = 0x5C then [0x5C, 0x5C] @ quote_chars cs
      else if c < 0x20 then unicode_escape c @ quote_chars cs
      else if is_lead_surrogate c then
        (case cs of
           [] \<Rightarrow> unicode_escape c
         | d # ds \<Rightarrow>
             if is_trail_surrogate d then c # d # quote_chars ds
             else unicode_escape c @ quote_chars cs)
      else if is_trail_surrogate c then unicode_escape c @ quote_chars cs
      else c # quote_chars cs)"

definition QuoteJSONString :: "jstring \<Rightarrow> jstring" where
  "QuoteJSONString s = 0x22 # quote_chars s @ [0x22]"

fun join_comma :: "jstring list \<Rightarrow> jstring" where
  "join_comma [] = []"
| "join_comma [t] = t"
| "join_comma (t # u # ts) = t @ 0x2C # join_comma (u # ts)"

text \<open>
  \<open>SerializeJSONProperty\<close>: \<open>undefined\<close> has no JSON text (the result \<open>None\<close>); inside an
  array it is written \<open>null\<close>, inside an object the property is left out.  \<open>NaN\<close> is written
  \<open>null\<close>.
\<close>

fun serialize :: "jsval \<Rightarrow> jstring option"
  and serialize_elems :: "jsval list \<Rightarrow> jstring list"
  and serialize_members :: "(jstring \<times> jsval) list \<Rightarrow> jstring list"
where
  "serialize Undefined = None"
| "serialize Null = Some (js ''null'')"
| "serialize (Bool b) = Some (js (if b then ''true'' else ''false''))"
| "serialize (Number n) = Some (case n of NaN \<Rightarrow> js ''null'' | Fin m d \<Rightarrow> js (number_to_string n))"
| "serialize (Str s) = Some (QuoteJSONString s)"
| "serialize (Array xs) = Some (0x5B # join_comma (serialize_elems xs) @ [0x5D])"
| "serialize (Object ms) = Some (0x7B # join_comma (serialize_members ms) @ [0x7D])"
| "serialize_elems [] = []"
| "serialize_elems (x # xs) =
     (case serialize x of None \<Rightarrow> js ''null'' | Some t \<Rightarrow> t) # serialize_elems xs"
| "serialize_members [] = []"
| "serialize_members ((k, v) # ms) =
     (case serialize v of
        None \<Rightarrow> serialize_members ms
      | Some t \<Rightarrow> (QuoteJSONString k @ 0x3A # t) # serialize_members ms)"

definition JSON_stringify :: "jsval \<Rightarrow> jstring option" where
  "JSON_stringify v = serialize v"

subsection \<open>\<open>JSON.parse\<close>\<close>

text \<open>
  The JSON grammar, read in two passes: the text is cut into tokens (punctuation and the
  literals: strings, numbers, \<open>true\<close>, \<open>false\<close>, \<open>null\<close>), and a pushdown automaton builds the
  value from the tokens.  Both are total; \<open>None\<close> is the SyntaxError of \<open>JSON.parse\<close>.
\<close>

definition hex_val :: "16 word \<Rightarrow> nat option" where
  "hex_val c =
     (if 0x30 \<le> c \<and> c \<le> 0x39 then Some (unat c - 48)
      else if 0x41 \<le> c \<and> c \<le> 0x46 then Some (unat c - 55)
      else if 0x61 \<le> c \<and> c \<le> 0x66 then Some (unat c - 87)
      else None)"

definition unescape :: "16 word \<Rightarrow> 16 word option" where
  "unescape e =
     (if e = 0x22 then Some 0x22 else if e = 0x5C then Some 0x5C
      else if e = 0x2F then Some 0x2F else if e = 0x62 then Some 0x08
      else if e = 0x66 then Some 0x0C else if e = 0x6E then Some 0x0A
      else if e = 0x72 then Some 0x0D else if e = 0x74 then Some 0x09
      else None)"

definition cons_fst :: "'a \<Rightarrow> ('a list \<times> 'b) option \<Rightarrow> ('a list \<times> 'b) option" where
  "cons_fst x r = map_option (\<lambda>(s, t). (x # s, t)) r"

text \<open>The characters of a string literal after its opening quote, and what follows it.\<close>

fun scan_string :: "jstring \<Rightarrow> (jstring \<times> jstring) option" where
  "scan_string [] = None"
| "scan_string (c # cs) =
     (if c = 0x22 then Some ([], cs)
      else if c = 0x5C then
        (case cs of
           [] \<Rightarrow> None
         | e # r \<Rightarrow>
             if e = 0x75 then
               (case r of
                  h1 # h2 # h3 # h4 # r' \<Rightarrow>
                    (case (hex_val h1, hex_val h2, hex_val h3, hex_val h4) of
                       (Some a, Some b, Some c', Some d) \<Rightarrow>
                         cons_fst (of_nat (((a * 16 + b) * 16 + c') * 16 + d)) (scan_string r')
                     | _ \<Rightarrow> None)
                | _ \<Rightarrow> None)
             else
               (case unescape e of
                  None \<Rightarrow> None
                | Some x \<Rightarrow> cons_fst x (scan_string r)))
      else if c < 0x20 then None
      else cons_fst c (scan_string cs))"

definition is_digit16 :: "16 word \<Rightarrow> bool" where
  "is_digit16 c = (0x30 \<le> c \<and> c \<le> 0x39)"

definition nat_of_digits16 :: "jstring \<Rightarrow> nat" where
  "nat_of_digits16 ds = foldl (\<lambda>a c. 10 * a + (unat c - 48)) 0 ds"

text \<open>The canonical decimal of \<open>m / 10 ^ d\<close>: common factors of ten are cancelled.\<close>

fun norm_decimal :: "int \<Rightarrow> nat \<Rightarrow> jsnum" where
  "norm_decimal m 0 = Fin m 0"
| "norm_decimal m (Suc d) =
     (if m mod 10 = 0 then norm_decimal (m div 10) d else Fin m (Suc d))"

definition make_number :: "bool \<Rightarrow> nat \<Rightarrow> int \<Rightarrow> jsnum" where
  "make_number neg mant e =
     (let m = (if neg then - int mant else int mant) in
      if 0 \<le> e then Fin (m * 10 ^ nat e) 0 else norm_decimal m (nat (- e)))"

text \<open>
  A number literal: an optional minus, the integer part (\<open>0\<close>, or digits not starting with
  \<open>0\<close>), an optional fraction, an optional exponent.
\<close>

definition scan_frac :: "jstring \<Rightarrow> (jstring \<times> jstring) option" where
  "scan_frac s =
     (case s of
        [] \<Rightarrow> Some ([], s)
      | c # r \<Rightarrow>
          if c = 0x2E then
            (if takeWhile is_digit16 r = [] then None
             else Some (takeWhile is_digit16 r, dropWhile is_digit16 r))
          else Some ([], s))"

definition scan_sign :: "jstring \<Rightarrow> bool \<times> jstring" where
  "scan_sign s =
     (case s of
        [] \<Rightarrow> (False, s)
      | c # r \<Rightarrow> if c = 0x2D then (True, r) else if c = 0x2B then (False, r) else (False, s))"

definition scan_exp :: "jstring \<Rightarrow> (int \<times> jstring) option" where
  "scan_exp s =
     (case s of
        [] \<Rightarrow> Some (0, s)
      | c # r \<Rightarrow>
          if c = 0x65 \<or> c = 0x45 then
            (let (eneg, r') = scan_sign r; ep = takeWhile is_digit16 r' in
             if ep = [] then None
             else Some ((if eneg then - int (nat_of_digits16 ep) else int (nat_of_digits16 ep)),
                        dropWhile is_digit16 r'))
          else Some (0, s))"

definition scan_minus :: "jstring \<Rightarrow> bool \<times> jstring" where
  "scan_minus s = (case s of [] \<Rightarrow> (False, s) | c # r \<Rightarrow> if c = 0x2D then (True, r) else (False, s))"

definition scan_number :: "jstring \<Rightarrow> (jsnum \<times> jstring) option" where
  "scan_number s =
     (let (neg, s1) = scan_minus s; ip = takeWhile is_digit16 s1 in
      if ip = [] \<or> (hd ip = 0x30 \<and> 1 < length ip) then None
      else
        (case scan_frac (dropWhile is_digit16 s1) of
           None \<Rightarrow> None
         | Some (fp, s3) \<Rightarrow>
             (case scan_exp s3 of
                None \<Rightarrow> None
              | Some (ex, s6) \<Rightarrow>
                  Some (make_number neg (nat_of_digits16 (ip @ fp)) (ex - int (length fp)), s6))))"

datatype token = TLBrace | TRBrace | TLBracket | TRBracket | TColon | TComma | TLit jsval

definition is_json_ws :: "16 word \<Rightarrow> bool" where
  "is_json_ws c = (c = 0x09 \<or> c = 0x0A \<or> c = 0x0D \<or> c = 0x20)"

lemma cons_fst_shorter:
  "cons_fst x r = Some (s, t) \<Longrightarrow> \<exists>s'. r = Some (s', t)"
  by (cases r) (auto simp: cons_fst_def)

lemma scan_string_shorter: "scan_string cs = Some (s, rest) \<Longrightarrow> length rest < length cs"
proof (induction cs arbitrary: s rule: length_induct)
  case (1 cs)
  have IH: "\<And>ys s'. length ys < length cs \<Longrightarrow> scan_string ys = Some (s', rest)
              \<Longrightarrow> length rest < length ys"
    using "1.IH" by blast
  from "1.prems" show ?case
    by (cases cs)
       (auto split: if_splits list.splits option.splits
             dest!: cons_fst_shorter dest: IH [rotated])
qed

lemma scan_frac_shorter: "scan_frac s = Some (fp, r) \<Longrightarrow> length r \<le> length s"
  by (cases s) (auto simp: scan_frac_def split: if_splits intro: le_trans [OF length_dropWhile_le])

lemma scan_sign_shorter: "scan_sign s = (b, r) \<Longrightarrow> length r \<le> length s"
  by (cases s) (auto simp: scan_sign_def split: if_splits)

lemma scan_minus_shorter: "scan_minus s = (b, r) \<Longrightarrow> length r \<le> length s"
  by (cases s) (auto simp: scan_minus_def split: if_splits)

lemma scan_exp_shorter: "scan_exp s = Some (ex, r) \<Longrightarrow> length r \<le> length s"
proof (cases s)
  case Nil
  assume "scan_exp s = Some (ex, r)"
  with Nil show ?thesis by (simp add: scan_exp_def)
next
  case (Cons c t)
  assume a: "scan_exp s = Some (ex, r)"
  obtain b t' where st: "scan_sign t = (b, t')" by (cases "scan_sign t")
  from a Cons st have "r = s \<or> r = dropWhile is_digit16 t'"
    by (auto simp: scan_exp_def Let_def split: if_splits)
  moreover have "length (dropWhile is_digit16 t') \<le> length t'" by (rule length_dropWhile_le)
  moreover have "length t' \<le> length t" using st by (rule scan_sign_shorter)
  ultimately show ?thesis using Cons by auto
qed

lemma dropWhile_shorter: "takeWhile P xs \<noteq> [] \<Longrightarrow> length (dropWhile P xs) < length xs"
  by (induction xs) (auto split: if_splits intro: le_less_trans [OF length_dropWhile_le])

lemma scan_number_shorter: "scan_number s = Some (n, rest) \<Longrightarrow> length rest < length s"
proof -
  assume a: "scan_number s = Some (n, rest)"
  obtain neg s1 where m: "scan_minus s = (neg, s1)" by (cases "scan_minus s")
  from a m have ip: "takeWhile is_digit16 s1 \<noteq> []"
    by (auto simp: scan_number_def Let_def split: if_splits)
  from a m ip obtain fp s3 where f: "scan_frac (dropWhile is_digit16 s1) = Some (fp, s3)"
    by (auto simp: scan_number_def Let_def split: if_splits option.splits)
  from a m ip f obtain ex where e: "scan_exp s3 = Some (ex, rest)"
    by (auto simp: scan_number_def Let_def split: if_splits option.splits)
  have "length rest \<le> length s3" using e by (rule scan_exp_shorter)
  also have "\<dots> \<le> length (dropWhile is_digit16 s1)" using f by (rule scan_frac_shorter)
  also have "\<dots> < length s1" using ip by (rule dropWhile_shorter)
  also have "\<dots> \<le> length s" using m by (rule scan_minus_shorter)
  finally show ?thesis .
qed

definition cons_tok :: "token \<Rightarrow> token list option \<Rightarrow> token list option" where
  "cons_tok t r = map_option ((#) t) r"

function lex :: "jstring \<Rightarrow> token list option" where
  "lex [] = Some []"
| "lex (c # cs) =
     (if is_json_ws c then lex cs
      else if c = 0x7B then cons_tok TLBrace (lex cs)
      else if c = 0x7D then cons_tok TRBrace (lex cs)
      else if c = 0x5B then cons_tok TLBracket (lex cs)
      else if c = 0x5D then cons_tok TRBracket (lex cs)
      else if c = 0x3A then cons_tok TColon (lex cs)
      else if c = 0x2C then cons_tok TComma (lex cs)
      else if c = 0x22 then
        (case scan_string cs of
           None \<Rightarrow> None
         | Some (s, rest) \<Rightarrow> cons_tok (TLit (Str s)) (lex rest))
      else if c = 0x2D \<or> is_digit16 c then
        (case scan_number (c # cs) of
           None \<Rightarrow> None
         | Some (n, rest) \<Rightarrow> cons_tok (TLit (Number n)) (lex rest))
      else if startsWith (c # cs) (js ''true'') then cons_tok (TLit (Bool True)) (lex (drop 3 cs))
      else if startsWith (c # cs) (js ''false'') then cons_tok (TLit (Bool False)) (lex (drop 4 cs))
      else if startsWith (c # cs) (js ''null'') then cons_tok (TLit Null) (lex (drop 3 cs))
      else None)"
  by pat_completeness auto
termination
proof (relation "measure length", goal_cases)
  case (9 c cs x2 s rest)
  then show ?case using scan_string_shorter [of cs s rest] by simp
next
  case (10 c cs x2 n rest)
  then show ?case using scan_number_shorter [of "c # cs" n rest] by simp
qed simp_all

text \<open>
  The automaton.  Its stack holds the arrays and objects that are still open: an array
  with the elements read so far, an object with its members, and an object whose next key
  has been read and waits for its value.  A member is entered with \<open>obj_define\<close>, so a
  repeated key keeps its first place and takes the last value.
\<close>

datatype frame =
    FArr "jsval list"
  | FObj "(jstring \<times> jsval) list"
  | FKey "(jstring \<times> jsval) list" jstring

datatype mode = MValue | MArrStart | MObjStart | MKey | MColon | MAfter | MDone jsval

fun after_value :: "jsval \<Rightarrow> frame list \<Rightarrow> (mode \<times> frame list) option" where
  "after_value v [] = Some (MDone v, [])"
| "after_value v (FArr xs # st) = Some (MAfter, FArr (xs @ [v]) # st)"
| "after_value v (FKey ms k # st) = Some (MAfter, FObj (obj_define k v ms) # st)"
| "after_value v (FObj ms # st) = None"

fun begin_value :: "token \<Rightarrow> frame list \<Rightarrow> (mode \<times> frame list) option" where
  "begin_value (TLit v) st = after_value v st"
| "begin_value TLBracket st = Some (MArrStart, FArr [] # st)"
| "begin_value TLBrace st = Some (MObjStart, FObj [] # st)"
| "begin_value _ st = None"

fun begin_key :: "token \<Rightarrow> frame list \<Rightarrow> (mode \<times> frame list) option" where
  "begin_key (TLit (Str k)) (FObj ms # st) = Some (MColon, FKey ms k # st)"
| "begin_key _ st = None"

fun close_array :: "frame list \<Rightarrow> (mode \<times> frame list) option" where
  "close_array (FArr xs # st) = after_value (Array xs) st"
| "close_array _ = None"

fun close_object :: "frame list \<Rightarrow> (mode \<times> frame list) option" where
  "close_object (FObj ms # st) = after_value (Object ms) st"
| "close_object _ = None"

fun after_comma :: "frame list \<Rightarrow> (mode \<times> frame list) option" where
  "after_comma (FArr xs # st) = Some (MValue, FArr xs # st)"
| "after_comma (FObj ms # st) = Some (MKey, FObj ms # st)"
| "after_comma _ = None"

fun pstep :: "mode \<Rightarrow> frame list \<Rightarrow> token \<Rightarrow> (mode \<times> frame list) option" where
  "pstep MValue st t = begin_value t st"
| "pstep MArrStart st t = (if t = TRBracket then close_array st else begin_value t st)"
| "pstep MObjStart st t = (if t = TRBrace then close_object st else begin_key t st)"
| "pstep MKey st t = begin_key t st"
| "pstep MColon st t = (if t = TColon then Some (MValue, st) else None)"
| "pstep MAfter st t =
     (if t = TComma then after_comma st
      else if t = TRBracket then close_array st
      else if t = TRBrace then close_object st
      else None)"
| "pstep (MDone v) st t = None"

fun prun :: "token list \<Rightarrow> mode \<times> frame list \<Rightarrow> (mode \<times> frame list) option" where
  "prun [] c = Some c"
| "prun (t # ts) (m, st) = (case pstep m st t of None \<Rightarrow> None | Some c \<Rightarrow> prun ts c)"

definition parse_tokens :: "token list \<Rightarrow> jsval option" where
  "parse_tokens ts =
     (case prun ts (MValue, []) of
        Some (MDone v, st) \<Rightarrow> Some v
      | _ \<Rightarrow> None)"

definition JSON_parse :: "jstring \<Rightarrow> jsval option" where
  "JSON_parse text = (case lex text of None \<Rightarrow> None | Some ts \<Rightarrow> parse_tokens ts)"

section \<open>Tenant credentials\<close>

record TenantCredentials =
  apiKey :: "string option"
  baseUrl :: "string option"

text \<open>
  \<open>headers.get(name) || undefined\<close>: \<open>get\<close> answers \<open>null\<close> for an absent header, and
  \<open>||\<close> replaces every falsy value, the empty string as well as \<open>null\<close>, by \<open>undefined\<close>.
  The inbound headers are a map from the header name to its value.
\<close>

definition or_undefined :: "string option \<Rightarrow> string option" where
  "or_undefined v = (case v of None \<Rightarrow> None | Some s \<Rightarrow> if s = [] then None else Some s)"

definition parseTenantCredentials :: "(string \<rightharpoonup> string) \<Rightarrow> TenantCredentials" where
  "parseTenantCredentials headers =
     \<lparr> apiKey = or_undefined (headers ''X-Qdrant-API-Key''),
       baseUrl = or_undefined (headers ''X-Qdrant-Base-URL'') \<rparr>"

text \<open>\<open>!s\<close> for an optional string: true for \<open>undefined\<close> and for the empty string.\<close>

definition falsy_str :: "string option \<Rightarrow> bool" where
  "falsy_str v = (case v of None \<Rightarrow> True | Some s \<Rightarrow> s = [])"

definition validateCredentials :: "TenantCredentials \<Rightarrow> error + unit" where
  "validateCredentials credentials =
     (if falsy_str (apiKey credentials) then
        Inl (Error ''Missing credentials. Provide X-Qdrant-API-Key header.'')
      else if falsy_str (baseUrl credentials) then
        Inl (Error (''Missing Qdrant URL. Provide X-Qdrant-Base-URL header ''
                    @ ''(e.g., https://your-cluster.qdrant.io:6333).''))
      else Inr ())"

section \<open>Reading JavaScript values\<close>

text \<open>Throwing and catching: a computation is an error or a value.\<close>

definition bind_sum :: "error + 'a \<Rightarrow> ('a \<Rightarrow> error + 'b) \<Rightarrow> error + 'b" where
  "bind_sum r f = (case r of Inl e \<Rightarrow> Inl e | Inr x \<Rightarrow> f x)"

definition try_catch :: "error + 'a \<Rightarrow> (error \<Rightarrow> error + 'a) \<Rightarrow> error + 'a" where
  "try_catch body handler = (case body of Inl e \<Rightarrow> handler e | Inr x \<Rightarrow> Inr x)"

text \<open>
  Property access \<open>v.name\<close>, for the names the client reads (\<open>status\<close>, \<open>error\<close>, \<open>message\<close>,
  \<open>result\<close>, \<open>exists\<close>, \<open>version\<close>; none of them is defined on a built-in prototype): reading
  from \<open>undefined\<close> or \<open>null\<close> throws a TypeError, an object gives its own property or
  \<open>undefined\<close>, every other value gives \<open>undefined\<close>.  \<open>v?.name\<close> gives \<open>undefined\<close> instead of
  throwing.
\<close>

definition unreadable :: "string \<Rightarrow> jstring \<Rightarrow> error" where
  "unreadable what name =
     TypeError (''Cannot read properties of '' @ what @ '' (reading '' @ [CHR 0x27]
                @ map (\<lambda>c. char_of (unat c)) name @ [CHR 0x27] @ '')'')"

fun get_prop :: "jsval \<Rightarrow> jstring \<Rightarrow> error + jsval" where
  "get_prop Undefined name = Inl (unreadable ''undefined'' name)"
| "get_prop Null name = Inl (unreadable ''null'' name)"
| "get_prop (Object ms) name = Inr (case map_of ms name of None \<Rightarrow> Undefined | Some v \<Rightarrow> v)"
| "get_prop v name = Inr Undefined"

fun optional_chain :: "jsval \<Rightarrow> jstring \<Rightarrow> error + jsval" where
  "optional_chain Undefined name = Inr Undefined"
| "optional_chain Null name = Inr Undefined"
| "optional_chain v name = get_prop v name"

text \<open>
  \<open>ToString\<close>, as applied by \<open>String(v)\<close> and by a template literal: an array joins the
  texts of its elements with commas (\<open>undefined\<close> and \<open>null\<close> give the empty text), a plain
  object gives \<open>[object Object]\<close>, and an object with a property \<open>toString\<close> of its own, which
  for a JSON value is never a function, cannot be converted.
\<close>

fun js_join :: "jstring list \<Rightarrow> jstring" where
  "js_join [] = []"
| "js_join [t] = t"
| "js_join (t # u # ts) = t @ 0x2C # js_join (u # ts)"

definition sequence_sum :: "(error + 'a) list \<Rightarrow> error + 'a list" where
  "sequence_sum rs =
     foldr (\<lambda>r acc. bind_sum r (\<lambda>x. bind_sum acc (\<lambda>xs. Inr (x # xs)))) rs (Inr [])"

fun ToString :: "jsval \<Rightarrow> error + jstring"
  and ToString_elems :: "jsval list \<Rightarrow> (error + jstring) list"
where
  "ToString Undefined = Inr (js ''undefined'')"
| "ToString Null = Inr (js ''null'')"
| "ToString (Bool b) = Inr (js (if b then ''true'' else ''false''))"
| "ToString (Number n) = Inr (js (number_to_string n))"
| "ToString (Str s) = Inr s"
| "ToString (Array xs) = map_sum id js_join (sequence_sum (ToString_elems xs))"
| "ToString (Object ms) =
     (if map_of ms (js ''toString'') = None then Inr (js ''[object Object]'')
      else Inl (TypeError ''Cannot convert object to primitive value''))"
| "ToString_elems [] = []"
| "ToString_elems (x # xs) =
     (if x = Undefined \<or> x = Null then Inr [] else ToString x) # ToString_elems xs"

text \<open>The own enumerable properties that \<open>{...v}\<close> copies.\<close>

definition index_keys :: "nat \<Rightarrow> jstring list" where
  "index_keys n = map (\<lambda>i. js (digits_of i)) [0..<n]"

fun own_props :: "jsval \<Rightarrow> (jstring \<times> jsval) list" where
  "own_props (Object ms) = ms"
| "own_props (Array xs) = zip (index_keys (length xs)) xs"
| "own_props (Str s) = zip (index_keys (length s)) (map (\<lambda>c. Str [c]) s)"
| "own_props v = []"

section \<open>The HTTP exchange\<close>

text \<open>
  What is handed to \<open>fetch\<close>, and what comes back.  A response gives its status, its
  headers (the answer of \<open>headers.get\<close> for a name) and the outcome of reading its body as
  text, which may fail.  \<open>fetch\<close> itself is a parameter of the model: a function from the
  request to a response or to the error it rejects with.  The effects of a call are the
  list of requests handed to \<open>fetch\<close> and the number of times a body was read.
\<close>

record request_init =
  init_method :: "string option"
  init_body :: "jstring option"
  init_headers :: "(string \<times> string) list option"

record http_request =
  req_url :: string
  req_method :: "string option"
  req_headers :: "(string \<times> string) list"
  req_body :: "jstring option"

record response =
  resp_status :: nat
  resp_headers :: "string \<rightharpoonup> string"
  resp_text :: "error + jstring"

record effects =
  fetched :: "http_request list"
  body_reads :: nat

type_synonym fetch = "http_request \<Rightarrow> error + response"

type_synonym outcome = "(error + jsval) \<times> effects"

definition no_effects :: effects where
  "no_effects = \<lparr> fetched = [], body_reads = 0 \<rparr>"

definition resp_ok :: "response \<Rightarrow> bool" where
  "resp_ok response = (200 \<le> resp_status response \<and> resp_status response \<le> 299)"

section \<open>The client\<close>

record QdrantClientImpl =
  this_credentials :: TenantCredentials
  this_baseUrl :: string

definition createQdrantClient :: "TenantCredentials \<Rightarrow> QdrantClientImpl" where
  "createQdrantClient credentials =
     \<lparr> this_credentials = credentials,
       this_baseUrl = (case baseUrl credentials of None \<Rightarrow> [] | Some u \<Rightarrow> u) \<rparr>"

definition getAuthHeaders :: "QdrantClientImpl \<Rightarrow> (string \<times> string) list" where
  "getAuthHeaders this =
     (let headers = [(''Content-Type'', ''application/json'')] in
      case apiKey (this_credentials this) of
        None \<Rightarrow> headers
      | Some k \<Rightarrow> if k = [] then headers else obj_define ''api-key'' k headers)"

text \<open>
  The message of an ApiError: \<open>errorJson.status?.error || errorJson.message ||
  errorJson.error || message\<close>, evaluated from left to right, inside a \<open>try\<close> whose \<open>catch\<close>
  keeps the default message.
\<close>

definition extract_message :: "jsval \<Rightarrow> jsval \<Rightarrow> error + jsval" where
  "extract_message errorJson message =
     bind_sum (get_prop errorJson (js ''status'')) (\<lambda>st.
     bind_sum (optional_chain st (js ''error'')) (\<lambda>a.
       if truthy a then Inr a
       else bind_sum (get_prop errorJson (js ''message'')) (\<lambda>b.
         if truthy b then Inr b
         else bind_sum (get_prop errorJson (js ''error'')) (\<lambda>c.
           if truthy c then Inr c else Inr message))))"

definition error_body_message :: "jstring \<Rightarrow> nat \<Rightarrow> jsval" where
  "error_body_message errorBody st =
     (let message = Str (js (''API error: '' @ digits_of st)) in
      case try_catch
             (case JSON_parse errorBody of
                None \<Rightarrow> Inl (SyntaxError ''Unexpected token in JSON'')
              | Some errorJson \<Rightarrow> extract_message errorJson message)
             (\<lambda>e. Inr message) of
        Inl e \<Rightarrow> message
      | Inr m \<Rightarrow> m)"

text \<open>
  The part of \<open>request\<close> after \<open>fetch\<close> has answered: the classification of the response.
  The second component counts the reads of the body.
\<close>

definition handle_response :: "response \<Rightarrow> (error + jsval) \<times> nat" where
  "handle_response response =
     (if resp_status response = 429 then
        (let retryAfter = resp_headers response ''Retry-After'' in
         (Inl (RateLimitError ''Rate limit exceeded''
                 (case retryAfter of
                    None \<Rightarrow> Fin 60 0
                  | Some r \<Rightarrow> if r = [] then Fin 60 0 else parseInt r)), 0))
      else if resp_status response = 401 \<or> resp_status response = 403 then
        (Inl (AuthenticationError ''Authentication failed. Check your API key.''), 0)
      else if \<not> resp_ok response then
        (case resp_text response of
           Inl e \<Rightarrow> (Inl e, 1)
         | Inr errorBody \<Rightarrow>
             (Inl (QdrantApiError (error_body_message errorBody (resp_status response))
                     (resp_status response)), 1))
      else if resp_status response = 204 then (Inr Undefined, 0)
      else
        let contentType = (case resp_headers response ''Content-Type'' of
                             None \<Rightarrow> [] | Some c \<Rightarrow> c) in
        if str_includes contentType ''text/plain'' then
          (case resp_text response of
             Inl e \<Rightarrow> (Inl e, 1)
           | Inr t \<Rightarrow> (Inr (Str t), 1))
        else
          (case resp_text response of
             Inl e \<Rightarrow> (Inl e, 1)
           | Inr t \<Rightarrow>
               (case JSON_parse t of
                  None \<Rightarrow> (Inl (SyntaxError ''Unexpected token in JSON''), 1)
                | Some json \<Rightarrow> (get_prop json (js ''result''), 1))))"

definition request :: "QdrantClientImpl \<Rightarrow> fetch \<Rightarrow> string \<Rightarrow> request_init \<Rightarrow> outcome" where
  "request this fetch endpoint options =
     (if this_baseUrl this = [] then
        (Inl (AuthenticationError ''No Qdrant URL provided. Set X-Qdrant-Base-URL header.''),
         no_effects)
      else
        let url = this_baseUrl this @ endpoint;
            req = \<lparr> req_url = url,
                    req_method = init_method options,
                    req_headers = spread (getAuthHeaders this)
                                    (case init_headers options of None \<Rightarrow> [] | Some h \<Rightarrow> h),
                    req_body = init_body options \<rparr>
        in case fetch req of
             Inl e \<Rightarrow> (Inl e, \<lparr> fetched = [req], body_reads = 0 \<rparr>)
           | Inr response \<Rightarrow>
               (fst (handle_response response),
                \<lparr> fetched = [req], body_reads = snd (handle_response response) \<rparr>))"

section \<open>The endpoint methods\<close>

text \<open>
  Every endpoint method builds its path, in which each variable segment goes through
  \<open>encodeURIComponent\<close> (and may throw there, before \<open>request\<close> is called), builds its
  options, and calls \<open>request\<close>.  A parameter with a default value is an optional argument;
  \<open>req\<close> stands for the parameter the source calls \<open>request\<close>, \<open>pointId\<close> for
  its \<open>id\<close>.
\<close>

definition default_arg :: "'a \<Rightarrow> 'a option \<Rightarrow> 'a" where
  "default_arg d a = (case a of None \<Rightarrow> d | Some x \<Rightarrow> x)"

definition bool_text :: "bool \<Rightarrow> string" where
  "bool_text b = (if b then ''true'' else ''false'')"

definition no_options :: request_init where
  "no_options = \<lparr> init_method = None, init_body = None, init_headers = None \<rparr>"

definition with_method :: "string \<Rightarrow> request_init" where
  "with_method m = \<lparr> init_method = Some m, init_body = None, init_headers = None \<rparr>"

definition with_body :: "string \<Rightarrow> jsval \<Rightarrow> request_init" where
  "with_body m v = \<lparr> init_method = Some m, init_body = JSON_stringify v, init_headers = None \<rparr>"

definition collection_path :: "jstring \<Rightarrow> string \<Rightarrow> error + string" where
  "collection_path collectionName suffix =
     bind_sum (encodeURIComponent collectionName) (\<lambda>c. Inr (''/collections/'' @ c @ suffix))"

definition request_at :: "QdrantClientImpl \<Rightarrow> fetch \<Rightarrow> error + string \<Rightarrow> request_init \<Rightarrow> outcome" where
  "request_at this fetch endpoint options =
     (case endpoint of
        Inl e \<Rightarrow> (Inl e, no_effects)
      | Inr path \<Rightarrow> request this fetch path options)"

text \<open>\<open>await this.request(...); return true\<close> and \<open>return result.exists\<close>.\<close>

definition returning_true :: "outcome \<Rightarrow> outcome" where
  "returning_true r = (case fst r of Inl e \<Rightarrow> r | Inr v \<Rightarrow> (Inr (Bool True), snd r))"

definition returning_exists :: "outcome \<Rightarrow> outcome" where
  "returning_exists r =
     (case fst r of Inl e \<Rightarrow> r | Inr result \<Rightarrow> (get_prop result (js ''exists''), snd r))"

definition getVersion :: "QdrantClientImpl \<Rightarrow> fetch \<Rightarrow> outcome" where
  "getVersion this fetch =
     request_at this fetch (Inr ''/'') no_options"

definition getTelemetry :: "QdrantClientImpl \<Rightarrow> fetch \<Rightarrow> bool option \<Rightarrow> outcome" where
  "getTelemetry this fetch anonymize =
     request_at this fetch (Inr (''/telemetry'' @ (if default_arg True anonymize then
       ''?anonymize=true'' else []))) no_options"

definition getMetrics :: "QdrantClientImpl \<Rightarrow> fetch \<Rightarrow> outcome" where
  "getMetrics this fetch =
     request_at this fetch (Inr ''/metrics'') no_options"

definition getLocks :: "QdrantClientImpl \<Rightarrow> fetch \<Rightarrow> outcome" where
  "getLocks this fetch =
     request_at this fetch (Inr ''/locks'') no_options"

definition setLocks :: "QdrantClientImpl \<Rightarrow> fetch \<Rightarrow> jsval \<Rightarrow> outcome" where
  "setLocks this fetch locks =
     request_at this fetch (Inr ''/locks'') (with_body ''POST'' locks)"

definition listCollections :: "QdrantClientImpl \<Rightarrow> fetch \<Rightarrow> outcome" where
  "listCollections this fetch =
     request_at this fetch (Inr ''/collections'') no_options"

definition getCollection :: "QdrantClientImpl \<Rightarrow> fetch \<Rightarrow> jstring \<Rightarrow> outcome" where
  "getCollection this fetch collectionName =
     request_at this fetch (collection_path collectionName '''') no_options"

definition collectionExists :: "QdrantClientImpl \<Rightarrow> fetch \<Rightarrow> jstring \<Rightarrow> outcome" where
  "collectionExists this fetch collectionName =
     returning_exists (request_at this fetch (collection_path collectionName ''/exists'')
       no_options)"

definition createCollection :: "QdrantClientImpl \<Rightarrow> fetch \<Rightarrow> jstring \<Rightarrow> jsval \<Rightarrow> outcome" where
  "createCollection this fetch collectionName config =
     returning_true (request_at this fetch (collection_path collectionName '''') (with_body
       ''PUT'' config))"

definition updateCollection :: "QdrantClientImpl \<Rightarrow> fetch \<Rightarrow> jstring \<Rightarrow> jsval \<Rightarrow> outcome" where
  "updateCollection this fetch collectionName config =
     returning_true (request_at this fetch (collection_path collectionName '''') (with_body
       ''PATCH'' config))"

definition deleteCollection :: "QdrantClientImpl \<Rightarrow> fetch \<Rightarrow> jstring \<Rightarrow> outcome" where
  "deleteCollection this fetch collectionName =
     returning_true (request_at this fetch (collection_path collectionName '''') (with_method
       ''DELETE''))"

definition listAliases :: "QdrantClientImpl \<Rightarrow> fetch \<Rightarrow> outcome" where
  "listAliases this fetch =
     request_at this fetch (Inr ''/aliases'') no_options"

definition getCollectionAliases :: "QdrantClientImpl \<Rightarrow> fetch \<Rightarrow> jstring \<Rightarrow> outcome" where
  "getCollectionAliases this fetch collectionName =
     request_at this fetch (collection_path collectionName ''/aliases'') no_options"

definition updateAliases :: "QdrantClientImpl \<Rightarrow> fetch \<Rightarrow> jsval \<Rightarrow> outcome" where
  "updateAliases this fetch operations =
     returning_true (request_at this fetch (Inr ''/collections/aliases'') (with_body ''POST''
       operations))"

definition upsertPoints :: "QdrantClientImpl \<Rightarrow> fetch \<Rightarrow> jstring \<Rightarrow> jsval \<Rightarrow> bool option \<Rightarrow> outcome" where
  "upsertPoints this fetch collectionName points wait =
     request_at this fetch (collection_path collectionName (''/points?wait='' @ bool_text
       (default_arg True wait))) (with_body ''PUT'' (Object [(js ''points'', points)]))"

definition getPoints :: "QdrantClientImpl \<Rightarrow> fetch \<Rightarrow> jstring \<Rightarrow> jsval \<Rightarrow> bool option \<Rightarrow> bool option \<Rightarrow> outcome" where
  "getPoints this fetch collectionName ids withPayload withVector =
     request_at this fetch (collection_path collectionName ''/points'') (with_body ''POST''
       (Object [(js ''ids'', ids), (js ''with_payload'', Bool (default_arg True withPayload)), (js
       ''with_vector'', Bool (default_arg False withVector))]))"

definition getPoint :: "QdrantClientImpl \<Rightarrow> fetch \<Rightarrow> jstring \<Rightarrow> jsval \<Rightarrow> outcome" where
  "getPoint this fetch collectionName pointId =
     request_at this fetch (bind_sum (encodeURIComponent collectionName) (\<lambda>c. bind_sum
       (ToString pointId) (\<lambda>t. bind_sum (encodeURIComponent t) (\<lambda>i. Inr
       (''/collections/'' @ c @ ''/points/'' @ i))))) no_options"

definition deletePoints :: "QdrantClientImpl \<Rightarrow> fetch \<Rightarrow> jstring \<Rightarrow> jsval \<Rightarrow> bool option \<Rightarrow> outcome" where
  "deletePoints this fetch collectionName req wait =
     request_at this fetch (collection_path collectionName (''/points/delete?wait='' @ bool_text
       (default_arg True wait))) (with_body ''POST'' req)"

definition scrollPoints :: "QdrantClientImpl \<Rightarrow> fetch \<Rightarrow> jstring \<Rightarrow> jsval \<Rightarrow> outcome" where
  "scrollPoints this fetch collectionName req =
     request_at this fetch (collection_path collectionName ''/points/scroll'') (with_body ''POST''
       req)"

definition countPoints :: "QdrantClientImpl \<Rightarrow> fetch \<Rightarrow> jstring \<Rightarrow> jsval \<Rightarrow> outcome" where
  "countPoints this fetch collectionName req =
     request_at this fetch (collection_path collectionName ''/points/count'') (with_body ''POST''
       (if req = Undefined then Object [] else req))"

definition updateVectors :: "QdrantClientImpl \<Rightarrow> fetch \<Rightarrow> jstring \<Rightarrow> jsval \<Rightarrow> bool option \<Rightarrow> outcome" where
  "updateVectors this fetch collectionName req wait =
     request_at this fetch (collection_path collectionName (''/points/vectors?wait='' @ bool_text
       (default_arg True wait))) (with_body ''PUT'' req)"

definition deleteVectors :: "QdrantClientImpl \<Rightarrow> fetch \<Rightarrow> jstring \<Rightarrow> jsval \<Rightarrow> bool option \<Rightarrow> outcome" where
  "deleteVectors this fetch collectionName req wait =
     request_at this fetch (collection_path collectionName (''/points/vectors/delete?wait='' @
       bool_text (default_arg True wait))) (with_body ''POST'' req)"

definition setPayload :: "QdrantClientImpl \<Rightarrow> fetch \<Rightarrow> jstring \<Rightarrow> jsval \<Rightarrow> bool option \<Rightarrow> outcome" where
  "setPayload this fetch collectionName req wait =
     request_at this fetch (collection_path collectionName (''/points/payload?wait='' @ bool_text
       (default_arg True wait))) (with_body ''POST'' req)"

definition overwritePayload :: "QdrantClientImpl \<Rightarrow> fetch \<Rightarrow> jstring \<Rightarrow> jsval \<Rightarrow> bool option \<Rightarrow> outcome" where
  "overwritePayload this fetch collectionName req wait =
     request_at this fetch (collection_path collectionName (''/points/payload?wait='' @ bool_text
       (default_arg True wait))) (with_body ''PUT'' req)"

definition deletePayload :: "QdrantClientImpl \<Rightarrow> fetch \<Rightarrow> jstring \<Rightarrow> jsval \<Rightarrow> bool option \<Rightarrow> outcome" where
  "deletePayload this fetch collectionName req wait =
     request_at this fetch (collection_path collectionName (''/points/payload/delete?wait='' @
       bool_text (default_arg True wait))) (with_body ''POST'' req)"

definition clearPayload :: "QdrantClientImpl \<Rightarrow> fetch \<Rightarrow> jstring \<Rightarrow> jsval \<Rightarrow> bool option \<Rightarrow> outcome" where
  "clearPayload this fetch collectionName req wait =
     request_at this fetch (collection_path collectionName (''/points/payload/clear?wait='' @
       bool_text (default_arg True wait))) (with_body ''POST'' req)"

definition batchUpdate :: "QdrantClientImpl \<Rightarrow> fetch \<Rightarrow> jstring \<Rightarrow> jsval \<Rightarrow> bool option \<Rightarrow> outcome" where
  "batchUpdate this fetch collectionName req wait =
     request_at this fetch (collection_path collectionName (''/points/batch?wait='' @ bool_text
       (default_arg True wait))) (with_body ''POST'' req)"

definition search :: "QdrantClientImpl \<Rightarrow> fetch \<Rightarrow> jstring \<Rightarrow> jsval \<Rightarrow> outcome" where
  "search this fetch collectionName req =
     request_at this fetch (collection_path collectionName ''/points/search'') (with_body ''POST''
       req)"

definition searchBatch :: "QdrantClientImpl \<Rightarrow> fetch \<Rightarrow> jstring \<Rightarrow> jsval \<Rightarrow> outcome" where
  "searchBatch this fetch collectionName req =
     request_at this fetch (collection_path collectionName ''/points/search/batch'') (with_body
       ''POST'' req)"

definition query :: "QdrantClientImpl \<Rightarrow> fetch \<Rightarrow> jstring \<Rightarrow> jsval \<Rightarrow> outcome" where
  "query this fetch collectionName req =
     request_at this fetch (collection_path collectionName ''/points/query'') (with_body ''POST''
       req)"

definition queryBatch :: "QdrantClientImpl \<Rightarrow> fetch \<Rightarrow> jstring \<Rightarrow> jsval \<Rightarrow> outcome" where
  "queryBatch this fetch collectionName req =
     request_at this fetch (collection_path collectionName ''/points/query/batch'') (with_body
       ''POST'' req)"

definition queryGroups :: "QdrantClientImpl \<Rightarrow> fetch \<Rightarrow> jstring \<Rightarrow> jsval \<Rightarrow> outcome" where
  "queryGroups this fetch collectionName req =
     request_at this fetch (collection_path collectionName ''/points/query/groups'') (with_body
       ''POST'' req)"

definition recommend :: "QdrantClientImpl \<Rightarrow> fetch \<Rightarrow> jstring \<Rightarrow> jsval \<Rightarrow> outcome" where
  "recommend this fetch collectionName req =
     request_at this fetch (collection_path collectionName ''/points/recommend'') (with_body
       ''POST'' req)"

definition recommendBatch :: "QdrantClientImpl \<Rightarrow> fetch \<Rightarrow> jstring \<Rightarrow> jsval \<Rightarrow> outcome" where
  "recommendBatch this fetch collectionName req =
     request_at this fetch (collection_path collectionName ''/points/recommend/batch'') (with_body
       ''POST'' req)"

definition recommendGroups :: "QdrantClientImpl \<Rightarrow> fetch \<Rightarrow> jstring \<Rightarrow> jsval \<Rightarrow> outcome" where
  "recommendGroups this fetch collectionName req =
     request_at this fetch (collection_path collectionName ''/points/recommend/groups'')
       (with_body ''POST'' req)"

definition discover :: "QdrantClientImpl \<Rightarrow> fetch \<Rightarrow> jstring \<Rightarrow> jsval \<Rightarrow> outcome" where
  "discover this fetch collectionName req =
     request_at this fetch (collection_path collectionName ''/points/discover'') (with_body
       ''POST'' req)"

definition discoverBatch :: "QdrantClientImpl \<Rightarrow> fetch \<Rightarrow> jstring \<Rightarrow> jsval \<Rightarrow> outcome" where
  "discoverBatch this fetch collectionName req =
     request_at this fetch (collection_path collectionName ''/points/discover/batch'') (with_body
       ''POST'' req)"

definition searchMatrixPairs :: "QdrantClientImpl \<Rightarrow> fetch \<Rightarrow> jstring \<Rightarrow> jsval \<Rightarrow> outcome" where
  "searchMatrixPairs this fetch collectionName req =
     request_at this fetch (collection_path collectionName ''/points/search/matrix/pairs'')
       (with_body ''POST'' req)"

definition searchMatrixOffsets :: "QdrantClientImpl \<Rightarrow> fetch \<Rightarrow> jstring \<Rightarrow> jsval \<Rightarrow> outcome" where
  "searchMatrixOffsets this fetch collectionName req =
     request_at this fetch (collection_path collectionName ''/points/search/matrix/offsets'')
       (with_body ''POST'' req)"

definition listSnapshots :: "QdrantClientImpl \<Rightarrow> fetch \<Rightarrow> jstring \<Rightarrow> outcome" where
  "listSnapshots this fetch collectionName =
     request_at this fetch (collection_path collectionName ''/snapshots'') no_options"

definition createSnapshot :: "QdrantClientImpl \<Rightarrow> fetch \<Rightarrow> jstring \<Rightarrow> bool option \<Rightarrow> outcome" where
  "createSnapshot this fetch collectionName wait =
     request_at this fetch (collection_path collectionName (''/snapshots?wait='' @ bool_text
       (default_arg True wait))) (with_method ''POST'')"

definition deleteSnapshot :: "QdrantClientImpl \<Rightarrow> fetch \<Rightarrow> jstring \<Rightarrow> jstring \<Rightarrow> bool option \<Rightarrow> outcome" where
  "deleteSnapshot this fetch collectionName snapshotName wait =
     returning_true (request_at this fetch (bind_sum (encodeURIComponent collectionName)
       (\<lambda>c. bind_sum (encodeURIComponent snapshotName) (\<lambda>n. Inr (''/collections/''
       @ c @ ''/snapshots/'' @ n @ ''?wait='' @ bool_text (default_arg True wait))))) (with_method
       ''DELETE''))"

definition recoverSnapshot :: "QdrantClientImpl \<Rightarrow> fetch \<Rightarrow> jstring \<Rightarrow> jsval \<Rightarrow> bool option \<Rightarrow> outcome" where
  "recoverSnapshot this fetch collectionName req wait =
     returning_true (request_at this fetch (collection_path collectionName
       (''/snapshots/recover?wait='' @ bool_text (default_arg True wait))) (with_body ''PUT''
       req))"

definition listFullSnapshots :: "QdrantClientImpl \<Rightarrow> fetch \<Rightarrow> outcome" where
  "listFullSnapshots this fetch =
     request_at this fetch (Inr ''/snapshots'') no_options"

definition createFullSnapshot :: "QdrantClientImpl \<Rightarrow> fetch \<Rightarrow> bool option \<Rightarrow> outcome" where
  "createFullSnapshot this fetch wait =
     request_at this fetch (Inr (''/snapshots?wait='' @ bool_text (default_arg True wait)))
       (with_method ''POST'')"

definition deleteFullSnapshot :: "QdrantClientImpl \<Rightarrow> fetch \<Rightarrow> jstring \<Rightarrow> bool option \<Rightarrow> outcome" where
  "deleteFullSnapshot this fetch snapshotName wait =
     returning_true (request_at this fetch (bind_sum (encodeURIComponent snapshotName)
       (\<lambda>n. Inr (''/snapshots/'' @ n @ ''?wait='' @ bool_text (default_arg True wait))))
       (with_method ''DELETE''))"

definition getClusterStatus :: "QdrantClientImpl \<Rightarrow> fetch \<Rightarrow> outcome" where
  "getClusterStatus this fetch =
     request_at this fetch (Inr ''/cluster'') no_options"

definition recoverCluster :: "QdrantClientImpl \<Rightarrow> fetch \<Rightarrow> outcome" where
  "recoverCluster this fetch =
     returning_true (request_at this fetch (Inr ''/cluster/recover'') (with_method ''POST''))"

definition removePeer :: "QdrantClientImpl \<Rightarrow> fetch \<Rightarrow> jsnum \<Rightarrow> bool option \<Rightarrow> outcome" where
  "removePeer this fetch peerId force =
     returning_true (request_at this fetch (Inr (''/cluster/peer/'' @ number_to_string peerId @
       ''?force='' @ bool_text (default_arg False force))) (with_method ''DELETE''))"

definition getCollectionClusterInfo :: "QdrantClientImpl \<Rightarrow> fetch \<Rightarrow> jstring \<Rightarrow> outcome" where
  "getCollectionClusterInfo this fetch collectionName =
     request_at this fetch (collection_path collectionName ''/cluster'') no_options"

definition updateCollectionCluster :: "QdrantClientImpl \<Rightarrow> fetch \<Rightarrow> jstring \<Rightarrow> jsval \<Rightarrow> outcome" where
  "updateCollectionCluster this fetch collectionName req =
     returning_true (request_at this fetch (collection_path collectionName ''/cluster'')
       (with_body ''POST'' req))"

definition createShardKey :: "QdrantClientImpl \<Rightarrow> fetch \<Rightarrow> jstring \<Rightarrow> jsval \<Rightarrow> outcome" where
  "createShardKey this fetch collectionName req =
     returning_true (request_at this fetch (collection_path collectionName ''/shards'') (with_body
       ''PUT'' req))"

definition deleteShardKey :: "QdrantClientImpl \<Rightarrow> fetch \<Rightarrow> jstring \<Rightarrow> jsval \<Rightarrow> outcome" where
  "deleteShardKey this fetch collectionName req =
     returning_true (request_at this fetch (collection_path collectionName ''/shards/delete'')
       (with_body ''POST'' req))"

definition createFieldIndex :: "QdrantClientImpl \<Rightarrow> fetch \<Rightarrow> jstring \<Rightarrow> jstring \<Rightarrow> jsval \<Rightarrow> bool option \<Rightarrow> outcome" where
  "createFieldIndex this fetch collectionName fieldName req wait =
     request_at this fetch (collection_path collectionName (''/index?wait='' @ bool_text
       (default_arg True wait))) (with_body ''PUT'' (Object (spread [(js ''field_name'', Str
       fieldName)] (own_props req))))"

definition deleteFieldIndex :: "QdrantClientImpl \<Rightarrow> fetch \<Rightarrow> jstring \<Rightarrow> jstring \<Rightarrow> bool option \<Rightarrow> outcome" where
  "deleteFieldIndex this fetch collectionName fieldName wait =
     request_at this fetch (bind_sum (encodeURIComponent collectionName) (\<lambda>c. bind_sum
       (encodeURIComponent fieldName) (\<lambda>f. Inr (''/collections/'' @ c @ ''/index/'' @ f @
       ''?wait='' @ bool_text (default_arg True wait))))) (with_method ''DELETE'')"

text \<open>
  A call of an endpoint method: the method and its arguments, grouped in families as the
  sections of the client are.
\<close>

datatype service_call =
    GetVersion
  | GetTelemetry "bool option"
  | GetMetrics
  | GetLocks
  | SetLocks jsval

datatype collection_call =
    ListCollections
  | GetCollection jstring
  | CollectionExists jstring
  | CreateCollection jstring jsval
  | UpdateCollection jstring jsval
  | DeleteCollection jstring
  | ListAliases
  | GetCollectionAliases jstring
  | UpdateAliases jsval

datatype point_call =
    UpsertPoints jstring jsval "bool option"
  | GetPoints jstring jsval "bool option" "bool option"
  | GetPoint jstring jsval
  | DeletePoints jstring jsval "bool option"
  | ScrollPoints jstring jsval
  | CountPoints jstring jsval
  | UpdateVectors jstring jsval "bool option"
  | DeleteVectors jstring jsval "bool option"

datatype payload_call =
    SetPayload jstring jsval "bool option"
  | OverwritePayload jstring jsval "bool option"
  | DeletePayload jstring jsval "bool option"
  | ClearPayload jstring jsval "bool option"
  | BatchUpdate jstring jsval "bool option"

datatype search_call =
    Search jstring jsval
  | SearchBatch jstring jsval
  | Query jstring jsval
  | QueryBatch jstring jsval
  | QueryGroups jstring jsval
  | Recommend jstring jsval
  | RecommendBatch jstring jsval
  | RecommendGroups jstring jsval
  | Discover jstring jsval
  | DiscoverBatch jstring jsval
  | SearchMatrixPairs jstring jsval
  | SearchMatrixOffsets jstring jsval

datatype snapshot_call =
    ListSnapshots jstring
  | CreateSnapshot jstring "bool option"
  | DeleteSnapshot jstring jstring "bool option"
  | RecoverSnapshot jstring jsval "bool option"
  | ListFullSnapshots
  | CreateFullSnapshot "bool option"
  | DeleteFullSnapshot jstring "bool option"

datatype cluster_call =
    GetClusterStatus
  | RecoverCluster
  | RemovePeer jsnum "bool option"
  | GetCollectionClusterInfo jstring
  | UpdateCollectionCluster jstring jsval
  | CreateShardKey jstring jsval
  | DeleteShardKey jstring jsval
  | CreateFieldIndex jstring jstring jsval "bool option"
  | DeleteFieldIndex jstring jstring "bool option"

datatype endpoint_call =
    ServiceCall service_call
  | CollectionCall collection_call
  | PointCall point_call
  | PayloadCall payload_call
  | SearchCall search_call
  | SnapshotCall snapshot_call
  | ClusterCall cluster_call

fun invoke_service :: "QdrantClientImpl \<Rightarrow> fetch \<Rightarrow> service_call \<Rightarrow> outcome" where
  "invoke_service this fetch GetVersion = getVersion this fetch"
| "invoke_service this fetch (GetTelemetry anonymize) = getTelemetry this fetch anonymize"
| "invoke_service this fetch GetMetrics = getMetrics this fetch"
| "invoke_service this fetch GetLocks = getLocks this fetch"
| "invoke_service this fetch (SetLocks locks) = setLocks this fetch locks"

fun invoke_collection :: "QdrantClientImpl \<Rightarrow> fetch \<Rightarrow> collection_call \<Rightarrow> outcome" where
  "invoke_collection this fetch ListCollections = listCollections this fetch"
| "invoke_collection this fetch (GetCollection collectionName) = getCollection this fetch collectionName"
| "invoke_collection this fetch (CollectionExists collectionName) = collectionExists this fetch collectionName"
| "invoke_collection this fetch (CreateCollection collectionName config) = createCollection this fetch collectionName config"
| "invoke_collection this fetch (UpdateCollection collectionName config) = updateCollection this fetch collectionName config"
| "invoke_collection this fetch (DeleteCollection collectionName) = deleteCollection this fetch collectionName"
| "invoke_collection this fetch ListAliases = listAliases this fetch"
| "invoke_collection this fetch (GetCollectionAliases collectionName) = getCollectionAliases this fetch collectionName"
| "invoke_collection this fetch (UpdateAliases operations) = updateAliases this fetch operations"

fun invoke_point :: "QdrantClientImpl \<Rightarrow> fetch \<Rightarrow> point_call \<Rightarrow> outcome" where
  "invoke_point this fetch (UpsertPoints collectionName points wait) = upsertPoints this fetch collectionName points wait"
| "invoke_point this fetch (GetPoints collectionName ids withPayload withVector) = getPoints this fetch collectionName ids withPayload withVector"
| "invoke_point this fetch (GetPoint collectionName pointId) = getPoint this fetch collectionName pointId"
| "invoke_point this fetch (DeletePoints collectionName req wait) = deletePoints this fetch collectionName req wait"
| "invoke_point this fetch (ScrollPoints collectionName req) = scrollPoints this fetch collectionName req"
| "invoke_point this fetch (CountPoints collectionName req) = countPoints this fetch collectionName req"
| "invoke_point this fetch (UpdateVectors collectionName req wait) = updateVectors this fetch collectionName req wait"
| "invoke_point this fetch (DeleteVectors collectionName req wait) = deleteVectors this fetch collectionName req wait"

fun invoke_payload :: "QdrantClientImpl \<Rightarrow> fetch \<Rightarrow> payload_call \<Rightarrow> outcome" where
  "invoke_payload this fetch (SetPayload collectionName req wait) = setPayload this fetch collectionName req wait"
| "invoke_payload this fetch (OverwritePayload collectionName req wait) = overwritePayload this fetch collectionName req wait"
| "invoke_payload this fetch (DeletePayload collectionName req wait) = deletePayload this fetch collectionName req wait"
| "invoke_payload this fetch (ClearPayload collectionName req wait) = clearPayload this fetch collectionName req wait"
| "invoke_payload this fetch (BatchUpdate collectionName req wait) = batchUpdate this fetch collectionName req wait"

fun invoke_search :: "QdrantClientImpl \<Rightarrow> fetch \<Rightarrow> search_call \<Rightarrow> outcome" where
  "invoke_search this fetch (Search collectionName req) = search this fetch collectionName req"
| "invoke_search this fetch (SearchBatch collectionName req) = searchBatch this fetch collectionName req"
| "invoke_search this fetch (Query collectionName req) = query this fetch collectionName req"
| "invoke_search this fetch (QueryBatch collectionName req) = queryBatch this fetch collectionName req"
| "invoke_search this fetch (QueryGroups collectionName req) = queryGroups this fetch collectionName req"
| "invoke_search this fetch (Recommend collectionName req) = recommend this fetch collectionName req"
| "invoke_search this fetch (RecommendBatch collectionName req) = recommendBatch this fetch collectionName req"
| "invoke_search this fetch (RecommendGroups collectionName req) = recommendGroups this fetch collectionName req"
| "invoke_search this fetch (Discover collectionName req) = discover this fetch collectionName req"
| "invoke_search this fetch (DiscoverBatch collectionName req) = discoverBatch this fetch collectionName req"
| "invoke_search this fetch (SearchMatrixPairs collectionName req) = searchMatrixPairs this fetch collectionName req"
| "invoke_search this fetch (SearchMatrixOffsets collectionName req) = searchMatrixOffsets this fetch collectionName req"

fun invoke_snapshot :: "QdrantClientImpl \<Rightarrow> fetch \<Rightarrow> snapshot_call \<Rightarrow> outcome" where
  "invoke_snapshot this fetch (ListSnapshots collectionName) = listSnapshots this fetch collectionName"
| "invoke_snapshot this fetch (CreateSnapshot collectionName wait) = createSnapshot this fetch collectionName wait"
| "invoke_snapshot this fetch (DeleteSnapshot collectionName snapshotName wait) = deleteSnapshot this fetch collectionName snapshotName wait"
| "invoke_snapshot this fetch (RecoverSnapshot collectionName req wait) = recoverSnapshot this fetch collectionName req wait"
| "invoke_snapshot this fetch ListFullSnapshots = listFullSnapshots this fetch"
| "invoke_snapshot this fetch (CreateFullSnapshot wait) = createFullSnapshot this fetch wait"
| "invoke_snapshot this fetch (DeleteFullSnapshot snapshotName wait) = deleteFullSnapshot this fetch snapshotName wait"

fun invoke_cluster :: "QdrantClientImpl \<Rightarrow> fetch \<Rightarrow> cluster_call \<Rightarrow> outcome" where
  "invoke_cluster this fetch GetClusterStatus = getClusterStatus this fetch"
| "invoke_cluster this fetch RecoverCluster = recoverCluster this fetch"
| "invoke_cluster this fetch (RemovePeer peerId force) = removePeer this fetch peerId force"
| "invoke_cluster this fetch (GetCollectionClusterInfo collectionName) = getCollectionClusterInfo this fetch collectionName"
| "invoke_cluster this fetch (UpdateCollectionCluster collectionName req) = updateCollectionCluster this fetch collectionName req"
| "invoke_cluster this fetch (CreateShardKey collectionName req) = createShardKey this fetch collectionName req"
| "invoke_cluster this fetch (DeleteShardKey collectionName req) = deleteShardKey this fetch collectionName req"
| "invoke_cluster this fetch (CreateFieldIndex collectionName fieldName req wait) = createFieldIndex this fetch collectionName fieldName req wait"
| "invoke_cluster this fetch (DeleteFieldIndex collectionName fieldName wait) = deleteFieldIndex this fetch collectionName fieldName wait"

fun invoke :: "QdrantClientImpl \<Rightarrow> fetch \<Rightarrow> endpoint_call \<Rightarrow> outcome" where
  "invoke this fetch (ServiceCall c) = invoke_service this fetch c"
| "invoke this fetch (CollectionCall c) = invoke_collection this fetch c"
| "invoke this fetch (PointCall c) = invoke_point this fetch c"
| "invoke this fetch (PayloadCall c) = invoke_payload this fetch c"
| "invoke this fetch (SearchCall c) = invoke_search this fetch c"
| "invoke this fetch (SnapshotCall c) = invoke_snapshot this fetch c"
| "invoke this fetch (ClusterCall c) = invoke_cluster this fetch c"

text \<open>
  The methods that do not return what \<open>request\<close> returned: those that answer \<open>true\<close>
  once the request has succeeded, and the existence check, which reads \<open>exists\<close> from the
  result.
\<close>

datatype result_shape = PassThrough | ReturnsTrue | ReadsExists

fun shape_of :: "endpoint_call \<Rightarrow> result_shape" where
  "shape_of (ServiceCall GetVersion) = PassThrough"
| "shape_of (ServiceCall (GetTelemetry anonymize)) = PassThrough"
| "shape_of (ServiceCall GetMetrics) = PassThrough"
| "shape_of (ServiceCall GetLocks) = PassThrough"
| "shape_of (ServiceCall (SetLocks locks)) = PassThrough"
| "shape_of (CollectionCall ListCollections) = PassThrough"
| "shape_of (CollectionCall (GetCollection collectionName)) = PassThrough"
| "shape_of (CollectionCall (CollectionExists collectionName)) = ReadsExists"
| "shape_of (CollectionCall (CreateCollection collectionName config)) = ReturnsTrue"
| "shape_of (CollectionCall (UpdateCollection collectionName config)) = ReturnsTrue"
| "shape_of (CollectionCall (DeleteCollection collectionName)) = ReturnsTrue"
| "shape_of (CollectionCall ListAliases) = PassThrough"
| "shape_of (CollectionCall (GetCollectionAliases collectionName)) = PassThrough"
| "shape_of (CollectionCall (UpdateAliases operations)) = ReturnsTrue"
| "shape_of (PointCall (UpsertPoints collectionName points wait)) = PassThrough"
| "shape_of (PointCall (GetPoints collectionName ids withPayload withVector)) = PassThrough"
| "shape_of (PointCall (GetPoint collectionName pointId)) = PassThrough"
| "shape_of (PointCall (DeletePoints collectionName req wait)) = PassThrough"
| "shape_of (PointCall (ScrollPoints collectionName req)) = PassThrough"
| "shape_of (PointCall (CountPoints collectionName req)) = PassThrough"
| "shape_of (PointCall (UpdateVectors collectionName req wait)) = PassThrough"
| "shape_of (PointCall (DeleteVectors collectionName req wait)) = PassThrough"
| "shape_of (PayloadCall (SetPayload collectionName req wait)) = PassThrough"
| "shape_of (PayloadCall (OverwritePayload collectionName req wait)) = PassThrough"
| "shape_of (PayloadCall (DeletePayload collectionName req wait)) = PassThrough"
| "shape_of (PayloadCall (ClearPayload collectionName req wait)) = PassThrough"
| "shape_of (PayloadCall (BatchUpdate collectionName req wait)) = PassThrough"
| "shape_of (SearchCall (Search collectionName req)) = PassThrough"
| "shape_of (SearchCall (SearchBatch collectionName req)) = PassThrough"
| "shape_of (SearchCall (Query collectionName req)) = PassThrough"
| "shape_of (SearchCall (QueryBatch collectionName req)) = PassThrough"
| "shape_of (SearchCall (QueryGroups collectionName req)) = PassThrough"
| "shape_of (SearchCall (Recommend collectionName req)) = PassThrough"
| "shape_of (SearchCall (RecommendBatch collectionName req)) = PassThrough"
| "shape_of (SearchCall (RecommendGroups collectionName req)) = PassThrough"
| "shape_of (SearchCall (Discover collectionName req)) = PassThrough"
| "shape_of (SearchCall (DiscoverBatch collectionName req)) = PassThrough"
| "shape_of (SearchCall (SearchMatrixPairs collectionName req)) = PassThrough"
| "shape_of (SearchCall (SearchMatrixOffsets collectionName req)) = PassThrough"
| "shape_of (SnapshotCall (ListSnapshots collectionName)) = PassThrough"
| "shape_of (SnapshotCall (CreateSnapshot collectionName wait)) = PassThrough"
| "shape_of (SnapshotCall (DeleteSnapshot collectionName snapshotName wait)) = ReturnsTrue"
| "shape_of (SnapshotCall (RecoverSnapshot collectionName req wait)) = ReturnsTrue"
| "shape_of (SnapshotCall ListFullSnapshots) = PassThrough"
| "shape_of (SnapshotCall (CreateFullSnapshot wait)) = PassThrough"
| "shape_of (SnapshotCall (DeleteFullSnapshot snapshotName wait)) = ReturnsTrue"
| "shape_of (ClusterCall GetClusterStatus) = PassThrough"
| "shape_of (ClusterCall RecoverCluster) = ReturnsTrue"
| "shape_of (ClusterCall (RemovePeer peerId force)) = ReturnsTrue"
| "shape_of (ClusterCall (GetCollectionClusterInfo collectionName)) = PassThrough"
| "shape_of (ClusterCall (UpdateCollectionCluster collectionName req)) = ReturnsTrue"
| "shape_of (ClusterCall (CreateShardKey collectionName req)) = ReturnsTrue"
| "shape_of (ClusterCall (DeleteShardKey collectionName req)) = ReturnsTrue"
| "shape_of (ClusterCall (CreateFieldIndex collectionName fieldName req wait)) = PassThrough"
| "shape_of (ClusterCall (DeleteFieldIndex collectionName fieldName wait)) = PassThrough"

fun finish :: "result_shape \<Rightarrow> outcome \<Rightarrow> outcome" where
  "finish PassThrough r = r"
| "finish ReturnsTrue r = returning_true r"
| "finish ReadsExists r = returning_exists r"

text \<open>
  The path each method hands to \<open>request\<close>: the first argument of its call of
  \<open>this.request\<close>, or the error thrown while that argument is evaluated.
\<close>

fun endpoint_of_service :: "service_call \<Rightarrow> error + string" where
  "endpoint_of_service GetVersion =
     Inr ''/''"
| "endpoint_of_service (GetTelemetry anonymize) =
     Inr (''/telemetry'' @ (if default_arg True anonymize then ''?anonymize=true'' else
       []))"
| "endpoint_of_service GetMetrics =
     Inr ''/metrics''"
| "endpoint_of_service GetLocks =
     Inr ''/locks''"
| "endpoint_of_service (SetLocks locks) =
     Inr ''/locks''"

fun endpoint_of_collection :: "collection_call \<Rightarrow> error + string" where
  "endpoint_of_collection ListCollections =
     Inr ''/collections''"
| "endpoint_of_collection (GetCollection collectionName) =
     collection_path collectionName ''''"
| "endpoint_of_collection (CollectionExists collectionName) =
     collection_path collectionName ''/exists''"
| "endpoint_of_collection (CreateCollection collectionName config) =
     collection_path collectionName ''''"
| "endpoint_of_collection (UpdateCollection collectionName config) =
     collection_path collectionName ''''"
| "endpoint_of_collection (DeleteCollection collectionName) =
     collection_path collectionName ''''"
| "endpoint_of_collection ListAliases =
     Inr ''/aliases''"
| "endpoint_of_collection (GetCollectionAliases collectionName) =
     collection_path collectionName ''/aliases''"
| "endpoint_of_collection (UpdateAliases operations) =
     Inr ''/collections/aliases''"

fun endpoint_of_point :: "point_call \<Rightarrow> error + string" where
  "endpoint_of_point (UpsertPoints collectionName points wait) =
     collection_path collectionName (''/points?wait='' @ bool_text (default_arg True wait))"
| "endpoint_of_point (GetPoints collectionName ids withPayload withVector) =
     collection_path collectionName ''/points''"
| "endpoint_of_point (GetPoint collectionName pointId) =
     bind_sum (encodeURIComponent collectionName) (\<lambda>c. bind_sum (ToString pointId)
       (\<lambda>t. bind_sum (encodeURIComponent t) (\<lambda>i. Inr (''/collections/'' @ c
       @ ''/points/'' @ i))))"
| "endpoint_of_point (DeletePoints collectionName req wait) =
     collection_path collectionName (''/points/delete?wait='' @ bool_text (default_arg True
       wait))"
| "endpoint_of_point (ScrollPoints collectionName req) =
     collection_path collectionName ''/points/scroll''"
| "endpoint_of_point (CountPoints collectionName req) =
     collection_path collectionName ''/points/count''"
| "endpoint_of_point (UpdateVectors collectionName req wait) =
     collection_path collectionName (''/points/vectors?wait='' @ bool_text (default_arg True
       wait))"
| "endpoint_of_point (DeleteVectors collectionName req wait) =
     collection_path collectionName (''/points/vectors/delete?wait='' @ bool_text
       (default_arg True wait))"

fun endpoint_of_payload :: "payload_call \<Rightarrow> error + string" where
  "endpoint_of_payload (SetPayload collectionName req wait) =
     collection_path collectionName (''/points/payload?wait='' @ bool_text (default_arg True
       wait))"
| "endpoint_of_payload (OverwritePayload collectionName req wait) =
     collection_path collectionName (''/points/payload?wait='' @ bool_text (default_arg True
       wait))"
| "endpoint_of_payload (DeletePayload collectionName req wait) =
     collection_path collectionName (''/points/payload/delete?wait='' @ bool_text
       (default_arg True wait))"
| "endpoint_of_payload (ClearPayload collectionName req wait) =
     collection_path collectionName (''/points/payload/clear?wait='' @ bool_text
       (default_arg True wait))"
| "endpoint_of_payload (BatchUpdate collectionName req wait) =
     collection_path collectionName (''/points/batch?wait='' @ bool_text (default_arg True
       wait))"

fun endpoint_of_search :: "search_call \<Rightarrow> error + string" where
  "endpoint_of_search (Search collectionName req) =
     collection_path collectionName ''/points/search''"
| "endpoint_of_search (SearchBatch collectionName req) =
     collection_path collectionName ''/points/search/batch''"
| "endpoint_of_search (Query collectionName req) =
     collection_path collectionName ''/points/query''"
| "endpoint_of_search (QueryBatch collectionName req) =
     collection_path collectionName ''/points/query/batch''"
| "endpoint_of_search (QueryGroups collectionName req) =
     collection_path collectionName ''/points/query/groups''"
| "endpoint_of_search (Recommend collectionName req) =
     collection_path collectionName ''/points/recommend''"
| "endpoint_of_search (RecommendBatch collectionName req) =
     collection_path collectionName ''/points/recommend/batch''"
| "endpoint_of_search (RecommendGroups collectionName req) =
     collection_path collectionName ''/points/recommend/groups''"
| "endpoint_of_search (Discover collectionName req) =
     collection_path collectionName ''/points/discover''"
| "endpoint_of_search (DiscoverBatch collectionName req) =
     collection_path collectionName ''/points/discover/batch''"
| "endpoint_of_search (SearchMatrixPairs collectionName req) =
     collection_path collectionName ''/points/search/matrix/pairs''"
| "endpoint_of_search (SearchMatrixOffsets collectionName req) =
     collection_path collectionName ''/points/search/matrix/offsets''"

fun endpoint_of_snapshot :: "snapshot_call \<Rightarrow> error + string" where
  "endpoint_of_snapshot (ListSnapshots collectionName) =
     collection_path collectionName ''/snapshots''"
| "endpoint_of_snapshot (CreateSnapshot collectionName wait) =
     collection_path collectionName (''/snapshots?wait='' @ bool_text (default_arg True
       wait))"
| "endpoint_of_snapshot (DeleteSnapshot collectionName snapshotName wait) =
     bind_sum (encodeURIComponent collectionName) (\<lambda>c. bind_sum (encodeURIComponent
       snapshotName) (\<lambda>n. Inr (''/collections/'' @ c @ ''/snapshots/'' @ n @
       ''?wait='' @ bool_text (default_arg True wait))))"
| "endpoint_of_snapshot (RecoverSnapshot collectionName req wait) =
     collection_path collectionName (''/snapshots/recover?wait='' @ bool_text (default_arg
       True wait))"
| "endpoint_of_snapshot ListFullSnapshots =
     Inr ''/snapshots''"
| "endpoint_of_snapshot (CreateFullSnapshot wait) =
     Inr (''/snapshots?wait='' @ bool_text (default_arg True wait))"
| "endpoint_of_snapshot (DeleteFullSnapshot snapshotName wait) =
     bind_sum (encodeURIComponent snapshotName) (\<lambda>n. Inr (''/snapshots/'' @ n @
       ''?wait='' @ bool_text (default_arg True wait)))"

fun endpoint_of_cluster :: "cluster_call \<Rightarrow> error + string" where
  "endpoint_of_cluster GetClusterStatus =
     Inr ''/cluster''"
| "endpoint_of_cluster RecoverCluster =
     Inr ''/cluster/recover''"
| "endpoint_of_cluster (RemovePeer peerId force) =
     Inr (''/cluster/peer/'' @ number_to_string peerId @ ''?force='' @ bool_text
       (default_arg False force))"
| "endpoint_of_cluster (GetCollectionClusterInfo collectionName) =
     collection_path collectionName ''/cluster''"
| "endpoint_of_cluster (UpdateCollectionCluster collectionName req) =
     collection_path collectionName ''/cluster''"
| "endpoint_of_cluster (CreateShardKey collectionName req) =
     collection_path collectionName ''/shards''"
| "endpoint_of_cluster (DeleteShardKey collectionName req) =
     collection_path collectionName ''/shards/delete''"
| "endpoint_of_cluster (CreateFieldIndex collectionName fieldName req wait) =
     collection_path collectionName (''/index?wait='' @ bool_text (default_arg True wait))"
| "endpoint_of_cluster (DeleteFieldIndex collectionName fieldName wait) =
     bind_sum (encodeURIComponent collectionName) (\<lambda>c. bind_sum (encodeURIComponent
       fieldName) (\<lambda>f. Inr (''/collections/'' @ c @ ''/index/'' @ f @ ''?wait='' @
       bool_text (default_arg True wait))))"

fun endpoint_of :: "endpoint_call \<Rightarrow> error + string" where
  "endpoint_of (ServiceCall c) = endpoint_of_service c"
| "endpoint_of (CollectionCall c) = endpoint_of_collection c"
| "endpoint_of (PointCall c) = endpoint_of_point c"
| "endpoint_of (PayloadCall c) = endpoint_of_payload c"
| "endpoint_of (SearchCall c) = endpoint_of_search c"
| "endpoint_of (SnapshotCall c) = endpoint_of_snapshot c"
| "endpoint_of (ClusterCall c) = endpoint_of_cluster c"

lemmas endpoint_defs =
  getVersion_def getTelemetry_def getMetrics_def getLocks_def setLocks_def listCollections_def getCollection_def collectionExists_def createCollection_def updateCollection_def deleteCollection_def listAliases_def getCollectionAliases_def updateAliases_def upsertPoints_def getPoints_def getPoint_def deletePoints_def scrollPoints_def countPoints_def updateVectors_def deleteVectors_def setPayload_def overwritePayload_def deletePayload_def clearPayload_def batchUpdate_def search_def searchBatch_def query_def queryBatch_def queryGroups_def recommend_def recommendBatch_def recommendGroups_def discover_def discoverBatch_def searchMatrixPairs_def searchMatrixOffsets_def listSnapshots_def createSnapshot_def deleteSnapshot_def recoverSnapshot_def listFullSnapshots_def createFullSnapshot_def deleteFullSnapshot_def getClusterStatus_def recoverCluster_def removePeer_def getCollectionClusterInfo_def updateCollectionCluster_def createShardKey_def deleteShardKey_def createFieldIndex_def deleteFieldIndex_def

section \<open>The connectivity test\<close>

record connection_result =
  connected :: bool
  message :: jsval

text \<open>
  \<open>testConnection\<close> wraps the call of \<open>getVersion\<close> and the building of the message in a
  \<open>try\<close>; the \<open>catch\<close> answers with the message of the error.  Every value of type
  \<^typ>\<open>error\<close> is an instance of \<open>Error\<close>, so the branch for other thrown values is not
  modelled.
\<close>

definition connected_message :: "jsval \<Rightarrow> error + jsval" where
  "connected_message version =
     bind_sum (get_prop version (js ''version'')) (\<lambda>v.
     bind_sum (ToString v) (\<lambda>t. Inr (Str (js ''Connected to Qdrant '' @ t))))"

definition testConnection :: "QdrantClientImpl \<Rightarrow> fetch \<Rightarrow> (error + connection_result) \<times> effects" where
  "testConnection this fetch =
     (try_catch
        (bind_sum (fst (getVersion this fetch)) (\<lambda>version.
         bind_sum (connected_message version) (\<lambda>m.
           Inr \<lparr> connected = True, message = m \<rparr>)))
        (\<lambda>error. Inr \<lparr> connected = False, message = error_message error \<rparr>),
      snd (getVersion this fetch))"

section \<open>Example inputs\<close>

text \<open>A client with a base URL and an API key, and a \<open>fetch\<close> that answers every request alike.\<close>

definition example_client :: QdrantClientImpl where
  "example_client =
     createQdrantClient \<lparr> apiKey = Some ''secret'', baseUrl = Some ''https://q.example:6333'' \<rparr>"

definition answering :: "response \<Rightarrow> fetch" where
  "answering response = (\<lambda>req. Inr response)"

section \<open>Notions used in the statements\<close>

text \<open>
  The field of a value, \<open>undefined\<close> when there is none; the first truthy value of a list,
  or a fallback; and, following the words of the specification, the message of an
  ApiError: the first of \<open>status.error\<close>, \<open>message\<close> and \<open>error\<close> that is there, else
  \<open>API error: <status>\<close>, also when the body is not JSON.
\<close>

definition field_of :: "jsval \<Rightarrow> jstring \<Rightarrow> jsval" where
  "field_of v name = (case get_prop v name of Inl e \<Rightarrow> Undefined | Inr x \<Rightarrow> x)"

definition first_truthy :: "jsval list \<Rightarrow> jsval \<Rightarrow> jsval" where
  "first_truthy candidates fallback =
     (case filter truthy candidates of [] \<Rightarrow> fallback | v # vs \<Rightarrow> v)"

definition spec_message :: "jstring \<Rightarrow> nat \<Rightarrow> jsval" where
  "spec_message body st =
     (let fallback = Str (js (''API error: '' @ digits_of st)) in
      case JSON_parse body of
        None \<Rightarrow> fallback
      | Some j \<Rightarrow>
          first_truthy
            [field_of (field_of j (js ''status'')) (js ''error''),
             field_of j (js ''message''),
             field_of j (js ''error'')]
            fallback)"

text \<open>\<open>fetch\<close> sends a request without a method as a GET.\<close>

definition effective_method :: "http_request \<Rightarrow> string" where
  "effective_method req = (case req_method req of None \<Rightarrow> ''GET'' | Some m \<Rightarrow> m)"

text \<open>The errors thrown while a path is built, before \<open>request\<close> is called.\<close>

definition path_error :: "error \<Rightarrow> bool" where
  "path_error e = (e = uri_malformed \<or> e = TypeError ''Cannot convert object to primitive value'')"

text \<open>The content type of a response, as \<open>request\<close> reads it: the header, or the empty text.\<close>

definition content_type :: "response \<Rightarrow> string" where
  "content_type response =
     (case resp_headers response ''Content-Type'' of None \<Rightarrow> [] | Some c \<Rightarrow> c)"

text \<open>
  What an endpoint method returns once \<open>request\<close> has returned the value \<open>v\<close>: the value
  itself, \<open>true\<close>, or the \<open>exists\<close> property of the value.
\<close>

definition method_returns :: "endpoint_call \<Rightarrow> jsval \<Rightarrow> error + jsval" where
  "method_returns c v =
     (case shape_of c of
        PassThrough \<Rightarrow> Inr v
      | ReturnsTrue \<Rightarrow> Inr (Bool True)
      | ReadsExists \<Rightarrow> get_prop v (js ''exists''))"

text \<open>The request of a method that passes no options: the URL and the authentication headers.\<close>

definition get_request :: "QdrantClientImpl \<Rightarrow> string \<Rightarrow> http_request" where
  "get_request this path =
     \<lparr> req_url = this_baseUrl this @ path, req_method = None,
       req_headers = getAuthHeaders this, req_body = None \<rparr>"

text \<open>
  Following the words of the specification, \<open>{field_name: fieldName}\<close> merged with the
  properties of the request object, those of the request taking precedence: \<open>field_name\<close>
  comes first, with the value the request gives it if it has one and the argument
  otherwise, and the other properties of the request follow in their order.
\<close>

definition merged_body :: "jstring \<Rightarrow> (jstring \<times> jsval) list \<Rightarrow> (jstring \<times> jsval) list" where
  "merged_body fieldName props =
     (js ''field_name'',
      (case map_of props (js ''field_name'') of None \<Rightarrow> Str fieldName | Some v \<Rightarrow> v))
     # filter (\<lambda>(k, v). k \<noteq> js ''field_name'') props"











section \<open>General facts about the endpoint methods\<close>

lemma encodeURIComponent_error: "encodeURIComponent s = Inl e \<Longrightarrow> e = uri_malformed"
  by (induction s arbitrary: e rule: encodeURIComponent.induct)
     (auto split: if_splits list.splits simp: map_sum_def split: sum.splits)

lemma bind_sum_Inl:
  "bind_sum r f = Inl e \<Longrightarrow> r = Inl e \<or> (\<exists>x. r = Inr x \<and> f x = Inl e)"
  by (cases r) (auto simp: bind_sum_def)

lemma sequence_sum_error:
  "sequence_sum rs = Inl e \<Longrightarrow> Inl e \<in> set rs"
  by (induction rs) (auto simp: sequence_sum_def bind_sum_def split: sum.splits)

lemma ToString_error:
  "ToString v = Inl e \<Longrightarrow> e = TypeError ''Cannot convert object to primitive value''"
  "Inl e \<in> set (ToString_elems vs) \<Longrightarrow> e = TypeError ''Cannot convert object to primitive value''"
proof (induction v and vs arbitrary: e and e rule: ToString_ToString_elems.induct)
  case (6 xs)
  then show ?case
    by (cases "sequence_sum (ToString_elems xs)") (auto dest: sequence_sum_error)
qed (auto split: if_splits)

lemma collection_path_error: "collection_path n sfx = Inl e \<Longrightarrow> path_error e"
  by (auto simp: collection_path_def path_error_def dest!: bind_sum_Inl dest: encodeURIComponent_error)

lemma path1_error:
  "bind_sum (encodeURIComponent n) (\<lambda>c. Inr (f c)) = Inl e \<Longrightarrow> path_error e"
  by (auto simp: path_error_def dest!: bind_sum_Inl dest: encodeURIComponent_error)

lemma path2_error:
  "bind_sum (encodeURIComponent n) (\<lambda>c. bind_sum (encodeURIComponent m) (\<lambda>k. Inr (f c k))) = Inl e
   \<Longrightarrow> path_error e"
  by (auto simp: path_error_def dest!: bind_sum_Inl dest: encodeURIComponent_error)

lemma path3_error:
  "bind_sum (encodeURIComponent n) (\<lambda>c. bind_sum (ToString i) (\<lambda>t.
     bind_sum (encodeURIComponent t) (\<lambda>k. Inr (f c k)))) = Inl e
   \<Longrightarrow> path_error e"
  by (auto simp: path_error_def dest!: bind_sum_Inl dest: encodeURIComponent_error ToString_error)

lemma shapeI:
  "(\<And>e. ep = Inl e \<Longrightarrow> path_error e) \<Longrightarrow>
   \<exists>endpoint options.
     finish sh (request_at this fetch ep opts) = finish sh (request_at this fetch endpoint options)
     \<and> (\<forall>e. endpoint = Inl e \<longrightarrow> path_error e)"
  by blast

lemmas shape_rules =
  shapeI [where sh = PassThrough, simplified finish.simps]
  shapeI [where sh = ReturnsTrue, simplified finish.simps]
  shapeI [where sh = ReadsExists, simplified finish.simps]

lemmas path_errors = collection_path_error path1_error path2_error path3_error

lemma invoke_shape:
  "\<exists>endpoint options.
     invoke this fetch c = finish (shape_of c) (request_at this fetch endpoint options)
     \<and> (\<forall>e. endpoint = Inl e \<longrightarrow> path_error e)"
proof (cases c)
  case (ServiceCall x) show ?thesis unfolding ServiceCall
    by (cases x; simp only: invoke.simps invoke_service.simps shape_of.simps finish.simps endpoint_defs;
        rule shape_rules; (erule path_errors | simp))
next
  case (CollectionCall x) show ?thesis unfolding CollectionCall
    by (cases x; simp only: invoke.simps invoke_collection.simps shape_of.simps finish.simps endpoint_defs;
        rule shape_rules; (erule path_errors | simp))
next
  case (PointCall x) show ?thesis unfolding PointCall
    by (cases x; simp only: invoke.simps invoke_point.simps shape_of.simps finish.simps endpoint_defs;
        rule shape_rules; (erule path_errors | simp))
next
  case (PayloadCall x) show ?thesis unfolding PayloadCall
    by (cases x; simp only: invoke.simps invoke_payload.simps shape_of.simps finish.simps endpoint_defs;
        rule shape_rules; (erule path_errors | simp))
next
  case (SearchCall x) show ?thesis unfolding SearchCall
    by (cases x; simp only: invoke.simps invoke_search.simps shape_of.simps finish.simps endpoint_defs;
        rule shape_rules; (erule path_errors | simp))
next
  case (SnapshotCall x) show ?thesis unfolding SnapshotCall
    by (cases x; simp only: invoke.simps invoke_snapshot.simps shape_of.simps finish.simps endpoint_defs;
        rule shape_rules; (erule path_errors | simp))
next
  case (ClusterCall x) show ?thesis unfolding ClusterCall
    by (cases x; simp only: invoke.simps invoke_cluster.simps shape_of.simps finish.simps endpoint_defs;
        rule shape_rules; (erule path_errors | simp))
qed

lemma finish_effects: "snd (finish sh r) = snd r"
  by (cases sh) (auto simp: returning_true_def returning_exists_def split: sum.splits)

lemma finish_error: "fst r = Inl e \<Longrightarrow> fst (finish sh r) = Inl e"
  by (cases sh) (auto simp: returning_true_def returning_exists_def)

lemma request_at_answered:
  assumes "fetched (snd (request_at this fetch endpoint options)) = [req]"
    and "fetch req = Inr response"
  shows "request_at this fetch endpoint options =
           (fst (handle_response response),
            \<lparr> fetched = [req], body_reads = snd (handle_response response) \<rparr>)"
  using assms
  by (auto simp: request_at_def request_def no_effects_def Let_def split: sum.splits if_splits)

lemma request_at_unanswered:
  assumes "fetched (snd (request_at this fetch endpoint options)) = []"
  shows "snd (request_at this fetch endpoint options) = no_effects
         \<and> (\<exists>e. fst (request_at this fetch endpoint options) = Inl e)"
  using assms
  by (auto simp: request_at_def request_def no_effects_def Let_def split: sum.splits if_splits)

lemma invoke_answered:
  assumes "fetched (snd (invoke this fetch c)) = [req]" and "fetch req = Inr response"
  shows "invoke this fetch c =
           finish (shape_of c)
             (fst (handle_response response),
              \<lparr> fetched = [req], body_reads = snd (handle_response response) \<rparr>)"
proof -
  obtain endpoint options where
    i: "invoke this fetch c = finish (shape_of c) (request_at this fetch endpoint options)"
    using invoke_shape by blast
  with assms(1) have "fetched (snd (request_at this fetch endpoint options)) = [req]"
    by (simp add: finish_effects)
  from request_at_answered [OF this assms(2)] i show ?thesis by simp
qed


lemma invoke_endpoint:
  "\<exists>options. invoke this fetch c
     = finish (shape_of c) (request_at this fetch (endpoint_of c) options)"
proof (cases c)
  case (ServiceCall x) show ?thesis unfolding ServiceCall
    by (cases x; simp only: invoke.simps invoke_service.simps shape_of.simps finish.simps
          endpoint_of.simps endpoint_of_service.simps endpoint_defs; rule exI; rule refl)
next
  case (CollectionCall x) show ?thesis unfolding CollectionCall
    by (cases x; simp only: invoke.simps invoke_collection.simps shape_of.simps finish.simps
          endpoint_of.simps endpoint_of_collection.simps endpoint_defs; rule exI; rule refl)
next
  case (PointCall x) show ?thesis unfolding PointCall
    by (cases x; simp only: invoke.simps invoke_point.simps shape_of.simps finish.simps
          endpoint_of.simps endpoint_of_point.simps endpoint_defs; rule exI; rule refl)
next
  case (PayloadCall x) show ?thesis unfolding PayloadCall
    by (cases x; simp only: invoke.simps invoke_payload.simps shape_of.simps finish.simps
          endpoint_of.simps endpoint_of_payload.simps endpoint_defs; rule exI; rule refl)
next
  case (SearchCall x) show ?thesis unfolding SearchCall
    by (cases x; simp only: invoke.simps invoke_search.simps shape_of.simps finish.simps
          endpoint_of.simps endpoint_of_search.simps endpoint_defs; rule exI; rule refl)
next
  case (SnapshotCall x) show ?thesis unfolding SnapshotCall
    by (cases x; simp only: invoke.simps invoke_snapshot.simps shape_of.simps finish.simps
          endpoint_of.simps endpoint_of_snapshot.simps endpoint_defs; rule exI; rule refl)
next
  case (ClusterCall x) show ?thesis unfolding ClusterCall
    by (cases x; simp only: invoke.simps invoke_cluster.simps shape_of.simps finish.simps
          endpoint_of.simps endpoint_of_cluster.simps endpoint_defs; rule exI; rule refl)
qed

lemma endpoint_of_service_error: "endpoint_of_service x = Inl e \<Longrightarrow> path_error e"
  by (cases x; simp only: endpoint_of_service.simps; (erule path_errors | simp))

lemma endpoint_of_collection_error: "endpoint_of_collection x = Inl e \<Longrightarrow> path_error e"
  by (cases x; simp only: endpoint_of_collection.simps; (erule path_errors | simp))

lemma endpoint_of_point_error: "endpoint_of_point x = Inl e \<Longrightarrow> path_error e"
  by (cases x; simp only: endpoint_of_point.simps; (erule path_errors | simp))

lemma endpoint_of_payload_error: "endpoint_of_payload x = Inl e \<Longrightarrow> path_error e"
  by (cases x; simp only: endpoint_of_payload.simps; (erule path_errors | simp))

lemma endpoint_of_search_error: "endpoint_of_search x = Inl e \<Longrightarrow> path_error e"
  by (cases x; simp only: endpoint_of_search.simps; (erule path_errors | simp))

lemma endpoint_of_snapshot_error: "endpoint_of_snapshot x = Inl e \<Longrightarrow> path_error e"
  by (cases x; simp only: endpoint_of_snapshot.simps; (erule path_errors | simp))

lemma endpoint_of_cluster_error: "endpoint_of_cluster x = Inl e \<Longrightarrow> path_error e"
  by (cases x; simp only: endpoint_of_cluster.simps; (erule path_errors | simp))

lemma endpoint_of_error: "endpoint_of c = Inl e \<Longrightarrow> path_error e"
  by (cases c)
     (auto dest: endpoint_of_service_error endpoint_of_collection_error endpoint_of_point_error endpoint_of_payload_error endpoint_of_search_error endpoint_of_snapshot_error endpoint_of_cluster_error)

lemma finish_thrown: "finish sh (Inl e, eff) = (Inl e, eff)"
  by (cases sh) (simp_all add: returning_true_def returning_exists_def)

lemma obj_define_fresh: "k \<notin> fst ` set ms \<Longrightarrow> obj_define k v ms = ms @ [(k, v)]"
  by (induction ms) auto

lemma spread_Cons: "spread target ((k, v) # src) = spread (obj_define k v target) src"
  by (simp add: spread_def)

lemma spread_onto_field:
  "distinct (map fst props) \<Longrightarrow> f \<notin> fst ` set acc \<Longrightarrow> fst ` set acc \<inter> fst ` set props = {} \<Longrightarrow>
   spread ((f, x) # acc) props =
     (f, (case map_of props f of None \<Rightarrow> x | Some v \<Rightarrow> v))
     # acc @ filter (\<lambda>(k, v). k \<noteq> f) props"
proof (induction props arbitrary: x acc)
  case Nil
  then show ?case by (simp add: spread_def)
next
  case (Cons p ps)
  obtain k v where p: "p = (k, v)" by (cases p)
  from Cons.prems p have d: "distinct (map fst ps)" and k: "k \<notin> fst ` set ps"
    and ka: "k \<notin> fst ` set acc" and dis: "fst ` set acc \<inter> fst ` set ps = {}"
    by auto
  show ?case
  proof (cases "k = f")
    case True
    with k have n: "map_of ps f = None" by (simp add: map_of_eq_None_iff)
    have "spread ((f, x) # acc) (p # ps) = spread ((f, v) # acc) ps"
      using True by (simp add: p spread_Cons)
    also note Cons.IH [OF d Cons.prems(2) dis, of v]
    finally show ?thesis using True n by (simp add: p)
  next
    case False
    have "spread ((f, x) # acc) (p # ps) = spread ((f, x) # (acc @ [(k, v)])) ps"
      using False by (simp add: p spread_Cons obj_define_fresh [OF ka])
    also have "\<dots> = (f, (case map_of ps f of None \<Rightarrow> x | Some v \<Rightarrow> v))
        # (acc @ [(k, v)]) @ filter (\<lambda>(k, v). k \<noteq> f) ps"
      using Cons.prems(2) False k dis by (intro Cons.IH [OF d]) auto
    finally show ?thesis using False by (simp add: p)
  qed
qed

lemma spread_merged_body:
  "distinct (map fst props) \<Longrightarrow>
   spread [(js ''field_name'', Str fieldName)] props = merged_body fieldName props"
  using spread_onto_field [of props "js ''field_name''" "[]" "Str fieldName"]
  by (simp add: merged_body_def)


section \<open>Credential resolution and validation\<close>

text \<open>
  C5, as stated, fails: a header sent with the empty string as its value resolves to the
  same credentials as a header that was never sent, so the two cannot be told apart.
\<close>

theorem C5_unset_vs_empty_counterexample:
  "parseTenantCredentials [''X-Qdrant-API-Key'' \<mapsto> '''']
     = parseTenantCredentials Map.empty"
  by (simp add: parseTenantCredentials_def or_undefined_def)

text \<open>
  C5, amended: an absent header resolves to the "not provided" state \<open>None\<close>, and no header,
  present or absent, ever resolves to the empty string: a header sent with the empty
  value resolves to "not provided" as well.
\<close>

theorem C5_resolve_absent:
  "(headers ''X-Qdrant-API-Key'' = None \<longrightarrow> apiKey (parseTenantCredentials headers) = None)
   \<and> (headers ''X-Qdrant-Base-URL'' = None \<longrightarrow> baseUrl (parseTenantCredentials headers) = None)
   \<and> (headers ''X-Qdrant-API-Key'' = Some [] \<longrightarrow> apiKey (parseTenantCredentials headers) = None)
   \<and> (headers ''X-Qdrant-Base-URL'' = Some [] \<longrightarrow> baseUrl (parseTenantCredentials headers) = None)
   \<and> apiKey (parseTenantCredentials headers) \<noteq> Some []
   \<and> baseUrl (parseTenantCredentials headers) \<noteq> Some []"
  by (simp add: parseTenantCredentials_def or_undefined_def split: option.splits)

theorem C5_resolve_absent_witness:
  "apiKey (parseTenantCredentials [''X-Qdrant-Base-URL'' \<mapsto> '''']) = None
   \<and> baseUrl (parseTenantCredentials [''X-Qdrant-Base-URL'' \<mapsto> '''']) = None
   \<and> apiKey (parseTenantCredentials [''X-Qdrant-API-Key'' \<mapsto> '''']) = None
   \<and> baseUrl (parseTenantCredentials [''X-Qdrant-API-Key'' \<mapsto> '''']) = None"
  using C5_resolve_absent [of "[''X-Qdrant-Base-URL'' \<mapsto> '''']"]
        C5_resolve_absent [of "[''X-Qdrant-API-Key'' \<mapsto> '''']"]
  by simp

text \<open>
  C4, as stated, fails: with both fields absent the error is a plain \<open>Error\<close>, not a
  ConfigurationError, and its message names the API-key header only.
\<close>

theorem C4_both_absent_counterexample:
  "validateCredentials \<lparr> apiKey = None, baseUrl = None \<rparr>
     = Inl (Error ''Missing credentials. Provide X-Qdrant-API-Key header.'')
   \<and> \<not> str_includes ''Missing credentials. Provide X-Qdrant-API-Key header.'' ''X-Qdrant-Base-URL''"
  by (simp add: validateCredentials_def falsy_str_def)

text \<open>
  C4, amended: when \<open>apiKey\<close> or \<open>baseUrl\<close> is absent or empty, \<open>validate\<close> fails with a plain
  \<open>Error\<close> whose message names the first missing header: the API-key header whenever the
  API key is missing (whether or not the base URL is missing too), the base-URL header
  when only the base URL is missing.  When both fields are present and non-empty it
  returns without error.
\<close>

theorem C4_validate:
  "(falsy_str (apiKey c) \<longrightarrow>
      (\<exists>m. validateCredentials c = Inl (Error m)
           \<and> str_includes m ''X-Qdrant-API-Key'' \<and> \<not> str_includes m ''X-Qdrant-Base-URL''))
   \<and> (\<not> falsy_str (apiKey c) \<and> falsy_str (baseUrl c) \<longrightarrow>
      (\<exists>m. validateCredentials c = Inl (Error m)
           \<and> str_includes m ''X-Qdrant-Base-URL'' \<and> \<not> str_includes m ''X-Qdrant-API-Key''))
   \<and> (\<not> falsy_str (apiKey c) \<and> \<not> falsy_str (baseUrl c) \<longrightarrow> validateCredentials c = Inr ())"
  by (simp add: validateCredentials_def)

theorem C4_validate_witness:
  "(\<exists>m. validateCredentials \<lparr> apiKey = None, baseUrl = Some ''http://h'' \<rparr> = Inl (Error m)
        \<and> str_includes m ''X-Qdrant-API-Key'' \<and> \<not> str_includes m ''X-Qdrant-Base-URL'')
   \<and> (\<exists>m. validateCredentials \<lparr> apiKey = Some ''k'', baseUrl = Some [] \<rparr> = Inl (Error m)
        \<and> str_includes m ''X-Qdrant-Base-URL'' \<and> \<not> str_includes m ''X-Qdrant-API-Key'')
   \<and> validateCredentials \<lparr> apiKey = Some ''k'', baseUrl = Some ''http://h'' \<rparr> = Inr ()"
  using C4_validate [of "\<lparr> apiKey = None, baseUrl = Some ''http://h'' \<rparr>"]
        C4_validate [of "\<lparr> apiKey = Some ''k'', baseUrl = Some [] \<rparr>"]
        C4_validate [of "\<lparr> apiKey = Some ''k'', baseUrl = Some ''http://h'' \<rparr>"]
  by (simp add: falsy_str_def)

section \<open>Claims about the shared request routine\<close>

lemma finish_cases:
  "fst (finish sh (Inr v, eff)) =
     (case sh of PassThrough \<Rightarrow> Inr v | ReturnsTrue \<Rightarrow> Inr (Bool True)
      | ReadsExists \<Rightarrow> get_prop v (js ''exists''))"
  by (cases sh) (auto simp: returning_true_def returning_exists_def)

lemma rate_limit_every_method:
  assumes "fetched (snd (invoke this fetch c)) = [req]" and "fetch req = Inr response"
    and "resp_status response = 429"
  shows "fst (invoke this fetch c) =
           Inl (RateLimitError ''Rate limit exceeded''
                  (case resp_headers response ''Retry-After'' of
                     None \<Rightarrow> Fin 60 0
                   | Some r \<Rightarrow> if r = [] then Fin 60 0 else parseInt r))"
proof -
  have "fst (handle_response response) =
          Inl (RateLimitError ''Rate limit exceeded''
                  (case resp_headers response ''Retry-After'' of
                     None \<Rightarrow> Fin 60 0
                   | Some r \<Rightarrow> if r = [] then Fin 60 0 else parseInt r))"
    using assms(3) by (simp add: handle_response_def)
  then show ?thesis
    unfolding invoke_answered [OF assms(1,2)] by (intro finish_error) simp
qed

text \<open>
  C1: on a 429 every endpoint method fails with a RateLimitError, whose retry-after value
  is 60 when the header is absent or empty and \<open>parseInt\<close> of the header otherwise
  (\<open>rate_limit_every_method\<close>).  The claim's value of 60 for a header that is not numeric
  is not what the code computes: for a Retry-After header holding an HTTP date, \<open>parseInt\<close>
  finds no digit and the error carries \<open>NaN\<close>.
\<close>

theorem C1_retry_after_http_date:
  "fst (invoke example_client
          (answering \<lparr> resp_status = 429,
                       resp_headers = [''Retry-After'' \<mapsto> ''Wed, 21 Oct 2015 07:28:00 GMT''],
                       resp_text = Inr [] \<rparr>)
          (ServiceCall GetVersion))
     = Inl (RateLimitError ''Rate limit exceeded'' NaN)"
proof -
  have p: "parseInt ''Wed, 21 Oct 2015 07:28:00 GMT'' = NaN" by code_simp
  show ?thesis
    by (simp add: getVersion_def request_at_def request_def example_client_def
          createQdrantClient_def answering_def handle_response_def p)
qed

text \<open>
  C2, as stated, fails: with an empty base URL \<open>createCollection\<close> issues no request, but
  the error it throws is an AuthenticationError, not a ConfigurationError.
\<close>

theorem C2_empty_base_url_counterexample:
  "invoke (createQdrantClient \<lparr> apiKey = Some ''secret'', baseUrl = None \<rparr>)
          (answering \<lparr> resp_status = 200, resp_headers = Map.empty, resp_text = Inr [] \<rparr>)
          (CollectionCall (CreateCollection (js ''docs'') (Object [])))
     = (Inl (AuthenticationError ''No Qdrant URL provided. Set X-Qdrant-Base-URL header.''),
        no_effects)"
proof -
  have e: "encodeURIComponent (js ''docs'') = Inr ''docs''" by code_simp
  show ?thesis
    by (simp add: createCollection_def request_at_def request_def createQdrantClient_def
          collection_path_def e bind_sum_def returning_true_def)
qed

text \<open>
  C2, amended: for every endpoint method, if the client's bound base URL is empty, the
  call issues no HTTP request (and reads no body) and fails.  When the method's path can
  be built, the error is the AuthenticationError "No Qdrant URL provided. Set
  X-Qdrant-Base-URL header."; when building the path throws, because an argument that goes
  into it cannot be percent-encoded or converted to text, the error is that one: the
  URIError "URI malformed" or the TypeError "Cannot convert object to primitive value".
\<close>

theorem C2_empty_base_url:
  assumes "this_baseUrl this = []"
  shows "invoke this fetch c =
           ((case endpoint_of c of
               Inl e \<Rightarrow> Inl e
             | Inr path \<Rightarrow>
                 Inl (AuthenticationError ''No Qdrant URL provided. Set X-Qdrant-Base-URL header.'')),
            no_effects)
         \<and> (\<forall>e. endpoint_of c = Inl e \<longrightarrow>
                e = URIError ''URI malformed''
                \<or> e = TypeError ''Cannot convert object to primitive value'')"
proof
  obtain options where
    i: "invoke this fetch c = finish (shape_of c) (request_at this fetch (endpoint_of c) options)"
    using invoke_endpoint by blast
  show "invoke this fetch c =
           ((case endpoint_of c of
               Inl e \<Rightarrow> Inl e
             | Inr path \<Rightarrow>
                 Inl (AuthenticationError ''No Qdrant URL provided. Set X-Qdrant-Base-URL header.'')),
            no_effects)"
  proof (cases "endpoint_of c")
    case (Inl e)
    then show ?thesis by (simp add: i request_at_def finish_thrown)
  next
    case (Inr path)
    with assms show ?thesis by (simp add: i request_at_def request_def finish_thrown)
  qed
  show "\<forall>e. endpoint_of c = Inl e \<longrightarrow>
                e = URIError ''URI malformed''
                \<or> e = TypeError ''Cannot convert object to primitive value''"
    using endpoint_of_error [of c] by (auto simp: path_error_def uri_malformed_def)
qed

theorem C2_empty_base_url_witness:
  "this_baseUrl (createQdrantClient \<lparr> apiKey = Some ''secret'', baseUrl = None \<rparr>) = []
   \<and> invoke (createQdrantClient \<lparr> apiKey = Some ''secret'', baseUrl = None \<rparr>)
        (answering \<lparr> resp_status = 200, resp_headers = Map.empty, resp_text = Inr [] \<rparr>)
        (ServiceCall GetVersion)
      = (Inl (AuthenticationError ''No Qdrant URL provided. Set X-Qdrant-Base-URL header.''),
         no_effects)
   \<and> invoke (createQdrantClient \<lparr> apiKey = Some ''secret'', baseUrl = None \<rparr>)
        (answering \<lparr> resp_status = 200, resp_headers = Map.empty, resp_text = Inr [] \<rparr>)
        (PointCall (UpsertPoints (js ''docs'') (Array []) None))
      = (Inl (AuthenticationError ''No Qdrant URL provided. Set X-Qdrant-Base-URL header.''),
         no_effects)
   \<and> invoke (createQdrantClient \<lparr> apiKey = Some ''secret'', baseUrl = None \<rparr>)
        (answering \<lparr> resp_status = 200, resp_headers = Map.empty, resp_text = Inr [] \<rparr>)
        (CollectionCall (GetCollection [0xD800]))
      = (Inl (URIError ''URI malformed''), no_effects)"
proof -
  let ?cl = "createQdrantClient \<lparr> apiKey = Some ''secret'', baseUrl = None \<rparr>"
  let ?f = "answering \<lparr> resp_status = 200, resp_headers = Map.empty, resp_text = Inr [] \<rparr>"
  have b: "this_baseUrl ?cl = []"
    by (simp add: createQdrantClient_def)
  have e: "encodeURIComponent (js ''docs'') = Inr ''docs''" by code_simp
  have m: "encodeURIComponent [0xD800] = Inl (URIError ''URI malformed'')" by code_simp
  have p1: "endpoint_of (ServiceCall GetVersion) = Inr ''/''" by simp
  have p2: "endpoint_of (PointCall (UpsertPoints (js ''docs'') (Array []) None))
              = Inr ''/collections/docs/points?wait=true''"
    by (simp add: collection_path_def bind_sum_def e default_arg_def bool_text_def)
  have p3: "endpoint_of (CollectionCall (GetCollection [0xD800])) = Inl (URIError ''URI malformed'')"
    by (simp only: endpoint_of.simps endpoint_of_collection.simps collection_path_def m
          bind_sum_def sum.case)
  have w1: "invoke ?cl ?f (ServiceCall GetVersion)
      = (Inl (AuthenticationError ''No Qdrant URL provided. Set X-Qdrant-Base-URL header.''),
         no_effects)"
    using C2_empty_base_url [OF b, where fetch = ?f and c = "ServiceCall GetVersion",
        THEN conjunct1]
    by (simp only: p1 sum.case)
  have w2: "invoke ?cl ?f (PointCall (UpsertPoints (js ''docs'') (Array []) None))
      = (Inl (AuthenticationError ''No Qdrant URL provided. Set X-Qdrant-Base-URL header.''),
         no_effects)"
    using C2_empty_base_url [OF b, where fetch = ?f
         and c = "PointCall (UpsertPoints (js ''docs'') (Array []) None)", THEN conjunct1]
    by (simp only: p2 sum.case)
  have w3: "invoke ?cl ?f (CollectionCall (GetCollection [0xD800]))
      = (Inl (URIError ''URI malformed''), no_effects)"
    using C2_empty_base_url [OF b, where fetch = ?f
         and c = "CollectionCall (GetCollection [0xD800])", THEN conjunct1]
    by (simp only: p3 sum.case)
  from b w1 w2 w3 show ?thesis by blast
qed


lemma error_body_message_spec: "error_body_message body st = spec_message body st"
proof (cases "JSON_parse body")
  case None
  then show ?thesis
    by (simp add: error_body_message_def spec_message_def try_catch_def)
next
  case (Some j)
  have "(case try_catch (extract_message j m) (\<lambda>e. Inr m) of Inl e \<Rightarrow> m | Inr x \<Rightarrow> x) =
          first_truthy [field_of (field_of j (js ''status'')) (js ''error''),
             field_of j (js ''message''), field_of j (js ''error'')] m" for m
  proof (cases "j = Undefined \<or> j = Null")
    case True
    then show ?thesis
      by (auto simp: extract_message_def bind_sum_def try_catch_def first_truthy_def field_of_def)
  next
    case False
    then obtain s where s: "get_prop j (js ''status'') = Inr s"
      by (cases j) auto
    from False obtain b where b: "get_prop j (js ''message'') = Inr b"
      by (cases j) auto
    from False obtain c where c: "get_prop j (js ''error'') = Inr c"
      by (cases j) auto
    obtain a where a: "optional_chain s (js ''error'') = Inr a"
      and a': "field_of s (js ''error'') = a"
      by (cases s) (auto simp: field_of_def)
    show ?thesis
      by (simp add: extract_message_def bind_sum_def try_catch_def first_truthy_def
            field_of_def s a a' [unfolded field_of_def] b c)
  qed
  with Some show ?thesis
    by (simp add: error_body_message_def spec_message_def Let_def)
qed

lemma handle_response_api_error:
  assumes "\<not> resp_ok response" "resp_status response \<notin> {401, 403, 429}"
    "resp_text response = Inr body"
  shows "handle_response response =
           (Inl (QdrantApiError (spec_message body (resp_status response)) (resp_status response)), 1)"
  using assms by (simp add: handle_response_def error_body_message_spec)

lemma handle_response_success:
  assumes "resp_ok response" "resp_status response \<noteq> 204" "resp_text response = Inr body"
  shows "handle_response response =
           (if str_includes (content_type response) ''text/plain'' then (Inr (Str body), 1)
            else case JSON_parse body of
                   None \<Rightarrow> (Inl (SyntaxError ''Unexpected token in JSON''), 1)
                 | Some json \<Rightarrow> (get_prop json (js ''result''), 1))"
  using assms by (auto simp: handle_response_def resp_ok_def content_type_def Let_def)

lemma handle_response_204:
  assumes "resp_status response = 204"
  shows "handle_response response = (Inr Undefined, 0)"
  using assms by (simp add: handle_response_def resp_ok_def)

lemma invoke_value:
  assumes "fetched (snd (invoke this fetch c)) = [req]" and "fetch req = Inr response"
    and "handle_response response = (Inr v, n)"
  shows "fst (invoke this fetch c) = method_returns c v"
    and "snd (invoke this fetch c) = \<lparr> fetched = [req], body_reads = n \<rparr>"
  unfolding invoke_answered [OF assms(1,2)] assms(3)
  by (simp_all add: finish_cases finish_effects method_returns_def)


lemma docs_encoded: "encodeURIComponent (js ''docs'') = Inr ''docs''"
  by code_simp

lemma docs_42_path:
  "bind_sum (encodeURIComponent (js ''docs'')) (\<lambda>c. bind_sum (ToString (Number (Fin 42 0))) (\<lambda>t.
     bind_sum (encodeURIComponent t) (\<lambda>i. Inr (''/collections/'' @ c @ ''/points/'' @ i))))
   = Inr ''/collections/docs/points/42''"
  by code_simp

lemma getPoint_docs_42:
  "getPoint this fetch (js ''docs'') (Number (Fin 42 0)) =
     request this fetch ''/collections/docs/points/42'' no_options"
  by (simp only: getPoint_def docs_42_path request_at_def sum.case)

lemma request_get:
  assumes "this_baseUrl this \<noteq> []" and "fetch (get_request this path) = Inr response"
  shows "request this fetch path no_options =
           (fst (handle_response response),
            \<lparr> fetched = [get_request this path], body_reads = snd (handle_response response) \<rparr>)"
  using assms by (simp add: request_def get_request_def no_options_def spread_def)

lemma not_found_message:
  \<open>spec_message (js ''{"status":{"error":"Not found"}}'') 404 = Str (js ''Not found'')\<close>
  by code_simp

lemma empty_message:
  \<open>spec_message (js ''{"message":""}'') 500 = Str (js ''API error: 500'')\<close>
  by code_simp

text \<open>
  C3, as stated, fails: the error body \<open>{"message":""}\<close> has a \<open>message\<close> field, but the
  field is falsy and \<open>||\<close> passes over it, so the ApiError carries the fallback message
  and not the field.
\<close>

theorem C3_empty_message_counterexample:
  \<open>JSON_parse (js ''{"message":""}'') = Some (Object [(js ''message'', Str [])])
   \<and> fst (invoke example_client
          (answering \<lparr> resp_status = 500, resp_headers = Map.empty,
                       resp_text = Inr (js ''{"message":""}'') \<rparr>)
          (PointCall (GetPoint (js ''docs'') (Number (Fin 42 0)))))
     = Inl (QdrantApiError (Str (js ''API error: 500'')) 500)\<close>
proof -
  have p: \<open>JSON_parse (js ''{"message":""}'') = Some (Object [(js ''message'', Str [])])\<close>
    by code_simp
  have b: "this_baseUrl example_client \<noteq> []"
    by (simp add: example_client_def createQdrantClient_def)
  let ?r = \<open>\<lparr> resp_status = 500, resp_headers = Map.empty,
                       resp_text = Inr (js ''{"message":""}'') \<rparr>\<close>
  have h: \<open>handle_response ?r = (Inl (QdrantApiError (Str (js ''API error: 500'')) 500), 1)\<close>
    using handle_response_api_error [of ?r \<open>js ''{"message":""}''\<close>]
    by (simp add: resp_ok_def empty_message)
  show ?thesis
    using p request_get [OF b, of "answering ?r" "''/collections/docs/points/42''" ?r] h
    by (simp add: getPoint_docs_42 answering_def)
qed

text \<open>
  C3, amended: for every endpoint method and every response whose status is not 2xx and
  not 401, 403 or 429, and whose body can be read, the call fails with an ApiError carrying
  the status and the message that \<open>spec_message\<close> describes: the body is parsed as JSON and
  the first truthy one of \<open>status.error\<close>, \<open>message\<close> and \<open>error\<close> is taken (an absent field
  and a field holding a falsy value are passed over), else \<open>API error: <status>\<close>, which is
  also the message when the body is not JSON.  In particular \<open>getPoint('docs', 42)\<close> issues
  \<open>GET /collections/docs/points/42\<close>, and a 404 answer with the body
  \<open>{"status":{"error":"Not found"}}\<close> gives the ApiError \<open>Not found\<close> with status 404.
\<close>

theorem C3_api_error:
  \<open>(\<forall>this (fetch :: fetch) c req response body.
       fetched (snd (invoke this fetch c)) = [req] \<and> fetch req = Inr response
       \<and> \<not> resp_ok response \<and> resp_status response \<notin> {401, 403, 429}
       \<and> resp_text response = Inr body
       \<longrightarrow> fst (invoke this fetch c)
             = Inl (QdrantApiError (spec_message body (resp_status response))
                      (resp_status response)))
   \<and> (\<forall>this (fetch :: fetch) hs.
       this_baseUrl this \<noteq> []
       \<and> fetch (get_request this ''/collections/docs/points/42'')
           = Inr \<lparr> resp_status = 404, resp_headers = hs,
                   resp_text = Inr (js ''{"status":{"error":"Not found"}}'') \<rparr>
       \<longrightarrow> getPoint this fetch (js ''docs'') (Number (Fin 42 0))
             = (Inl (QdrantApiError (Str (js ''Not found'')) 404),
                \<lparr> fetched = [get_request this ''/collections/docs/points/42''], body_reads = 1 \<rparr>)
           \<and> effective_method (get_request this ''/collections/docs/points/42'') = ''GET'')\<close>
proof (intro conjI allI impI)
  fix this and fetch :: fetch and c req response body
  assume a: "fetched (snd (invoke this fetch c)) = [req] \<and> fetch req = Inr response
       \<and> \<not> resp_ok response \<and> resp_status response \<notin> {401, 403, 429}
       \<and> resp_text response = Inr body"
  then have "handle_response response =
      (Inl (QdrantApiError (spec_message body (resp_status response)) (resp_status response)), 1)"
    by (intro handle_response_api_error) simp_all
  with a show "fst (invoke this fetch c)
      = Inl (QdrantApiError (spec_message body (resp_status response)) (resp_status response))"
    using invoke_answered [of this fetch c req response] by (simp add: finish_error)
next
  fix this and fetch :: fetch and hs
  let ?r = \<open>\<lparr> resp_status = 404, resp_headers = hs,
                   resp_text = Inr (js ''{"status":{"error":"Not found"}}'') \<rparr>\<close>
  assume a: "this_baseUrl this \<noteq> []
       \<and> fetch (get_request this ''/collections/docs/points/42'') = Inr ?r"
  have h: "handle_response ?r = (Inl (QdrantApiError (Str (js ''Not found'')) 404), 1)"
    using handle_response_api_error [of ?r \<open>js ''{"status":{"error":"Not found"}}''\<close>]
    by (simp add: resp_ok_def not_found_message)
  from a show "getPoint this fetch (js ''docs'') (Number (Fin 42 0))
             = (Inl (QdrantApiError (Str (js ''Not found'')) 404),
                \<lparr> fetched = [get_request this ''/collections/docs/points/42''], body_reads = 1 \<rparr>)"
    using request_get [of this fetch "''/collections/docs/points/42''" ?r] h
    by (simp add: getPoint_docs_42)
next
  fix this :: QdrantClientImpl
  show "effective_method (get_request this ''/collections/docs/points/42'') = ''GET''"
    by (simp add: effective_method_def get_request_def)
qed


lemma example_base: "this_baseUrl example_client \<noteq> []"
  by (simp add: example_client_def createQdrantClient_def)

lemma example_getPoint:
  "getPoint example_client (answering r) (js ''docs'') (Number (Fin 42 0))
     = (fst (handle_response r),
        \<lparr> fetched = [get_request example_client ''/collections/docs/points/42''],
          body_reads = snd (handle_response r) \<rparr>)"
  using request_get [OF example_base, of "answering r" "''/collections/docs/points/42''" r]
  by (simp add: getPoint_docs_42 answering_def)

theorem C3_api_error_witness:
  \<open>fetched (snd (invoke example_client
       (answering \<lparr> resp_status = 404, resp_headers = Map.empty,
                    resp_text = Inr (js ''{"status":{"error":"Not found"}}'') \<rparr>)
       (PointCall (GetPoint (js ''docs'') (Number (Fin 42 0))))))
     = [get_request example_client ''/collections/docs/points/42'']
   \<and> fst (invoke example_client
       (answering \<lparr> resp_status = 404, resp_headers = Map.empty,
                    resp_text = Inr (js ''{"status":{"error":"Not found"}}'') \<rparr>)
       (PointCall (GetPoint (js ''docs'') (Number (Fin 42 0)))))
     = Inl (QdrantApiError (Str (js ''Not found'')) 404)\<close>
proof -
  let ?r = \<open>\<lparr> resp_status = 404, resp_headers = Map.empty,
                    resp_text = Inr (js ''{"status":{"error":"Not found"}}'') \<rparr>\<close>
  let ?c = "PointCall (GetPoint (js ''docs'') (Number (Fin 42 0)))"
  let ?q = "get_request example_client ''/collections/docs/points/42''"
  have f: "fetched (snd (invoke example_client (answering ?r) ?c)) = [?q]"
    by (simp add: example_getPoint)
  have \<open>fst (invoke example_client (answering ?r) ?c)
      = Inl (QdrantApiError (spec_message (js ''{"status":{"error":"Not found"}}'') 404) 404)\<close>
    using C3_api_error [THEN conjunct1, rule_format,
        of example_client "answering ?r" ?c ?q ?r \<open>js ''{"status":{"error":"Not found"}}''\<close>] f
    by (simp add: answering_def resp_ok_def)
  with f show ?thesis by (simp only: not_found_message simp_thms)
qed

lemma create_docs:
  "createCollection example_client (answering r) (js ''docs'') (Object [])
     = returning_true (fst (handle_response r),
        \<lparr> fetched = [\<lparr> req_url = this_baseUrl example_client @ ''/collections/docs'',
                        req_method = Some ''PUT'', req_headers = getAuthHeaders example_client,
                        req_body = JSON_stringify (Object []) \<rparr>],
          body_reads = snd (handle_response r) \<rparr>)"
  using example_base
  by (simp add: createCollection_def collection_path_def docs_encoded bind_sum_def request_at_def
        request_def with_body_def spread_def answering_def)

text \<open>
  C6, as stated, fails: \<open>createCollection\<close> answers \<open>true\<close> whatever the \<open>result\<close> field
  of the envelope holds.
\<close>

theorem C6_returns_true_counterexample:
  \<open>JSON_parse (js ''{"result":false,"status":"ok","time":0.002}'')
     = Some (Object [(js ''result'', Bool False), (js ''status'', Str (js ''ok'')),
                     (js ''time'', Number (Fin 2 3))])
   \<and> fst (invoke example_client
          (answering \<lparr> resp_status = 200,
                       resp_headers = [''Content-Type'' \<mapsto> ''application/json''],
                       resp_text = Inr (js ''{"result":false,"status":"ok","time":0.002}'') \<rparr>)
          (CollectionCall (CreateCollection (js ''docs'') (Object []))))
     = Inr (Bool True)\<close>
proof -
  have p: \<open>JSON_parse (js ''{"result":false,"status":"ok","time":0.002}'')
     = Some (Object [(js ''result'', Bool False), (js ''status'', Str (js ''ok'')),
                     (js ''time'', Number (Fin 2 3))])\<close>
    by code_simp
  have i: "\<not> str_includes ''application/json'' ''text/plain''" by code_simp
  let ?r = \<open>\<lparr> resp_status = 200,
                       resp_headers = [''Content-Type'' \<mapsto> ''application/json''],
                       resp_text = Inr (js ''{"result":false,"status":"ok","time":0.002}'') \<rparr>\<close>
  have "handle_response ?r = (Inr (Bool False), 1)"
    using handle_response_success [of ?r \<open>js ''{"result":false,"status":"ok","time":0.002}''\<close>] i
    by (simp add: resp_ok_def content_type_def p)
  then show ?thesis
    using p by (simp add: create_docs returning_true_def)
qed

text \<open>
  C6, amended: for every endpoint method and every 2xx response other than 204 whose body
  can be read, the shared routine yields the raw body text when the content type contains
  \<open>text/plain\<close>, and otherwise, the body being a JSON object, exactly its \<open>result\<close> field
  (\<open>undefined\<close> when there is none); the body is read once.  The method returns that value
  unchanged, except that the methods written \<open>await this.request(...); return true\<close> return
  \<open>true\<close> and \<open>collectionExists\<close> returns the \<open>exists\<close> property of the value.
\<close>

theorem C6_success_body:
  assumes "fetched (snd (invoke this fetch c)) = [req]" and "fetch req = Inr response"
    and "resp_ok response" and "resp_status response \<noteq> 204"
    and "resp_text response = Inr body"
  shows "(str_includes (content_type response) ''text/plain''
            \<longrightarrow> fst (invoke this fetch c) = method_returns c (Str body))
         \<and> (\<not> str_includes (content_type response) ''text/plain''
            \<longrightarrow> (\<forall>ms. JSON_parse body = Some (Object ms)
                  \<longrightarrow> fst (invoke this fetch c)
                        = method_returns c (field_of (Object ms) (js ''result''))))
         \<and> body_reads (snd (invoke this fetch c)) = 1"
proof (intro conjI impI allI)
  assume "str_includes (content_type response) ''text/plain''"
  then have "handle_response response = (Inr (Str body), 1)"
    using handle_response_success [OF assms(3,4,5)] by simp
  from invoke_value(1) [OF assms(1,2) this]
  show "fst (invoke this fetch c) = method_returns c (Str body)" .
next
  fix ms
  assume "\<not> str_includes (content_type response) ''text/plain''"
    and "JSON_parse body = Some (Object ms)"
  then have "handle_response response = (Inr (field_of (Object ms) (js ''result'')), 1)"
    using handle_response_success [OF assms(3,4,5)] by (simp add: field_of_def)
  from invoke_value(1) [OF assms(1,2) this]
  show "fst (invoke this fetch c) = method_returns c (field_of (Object ms) (js ''result''))" .
next
  have "snd (handle_response response) = 1"
    using handle_response_success [OF assms(3,4,5)] by (simp split: option.splits)
  then show "body_reads (snd (invoke this fetch c)) = 1"
    unfolding invoke_answered [OF assms(1,2)] by (simp add: finish_effects)
qed

lemma example_getMetrics:
  "getMetrics example_client (answering r)
     = (fst (handle_response r),
        \<lparr> fetched = [get_request example_client ''/metrics''],
          body_reads = snd (handle_response r) \<rparr>)"
  using request_get [OF example_base, of "answering r" "''/metrics''" r]
  by (simp add: getMetrics_def request_at_def answering_def)

theorem C6_success_body_witness:
  "fetched (snd (invoke example_client
       (answering \<lparr> resp_status = 200,
                    resp_headers = [''Content-Type'' \<mapsto> ''text/plain; version=0.0.4''],
                    resp_text = Inr (js ''app_info 1'') \<rparr>)
       (ServiceCall GetMetrics)))
     = [get_request example_client ''/metrics'']
   \<and> str_includes ''text/plain; version=0.0.4'' ''text/plain''
   \<and> fst (invoke example_client
       (answering \<lparr> resp_status = 200,
                    resp_headers = [''Content-Type'' \<mapsto> ''text/plain; version=0.0.4''],
                    resp_text = Inr (js ''app_info 1'') \<rparr>)
       (ServiceCall GetMetrics))
     = Inr (Str (js ''app_info 1''))"
proof -
  let ?r = "\<lparr> resp_status = 200,
                    resp_headers = [''Content-Type'' \<mapsto> ''text/plain; version=0.0.4''],
                    resp_text = Inr (js ''app_info 1'') \<rparr>"
  let ?q = "get_request example_client ''/metrics''"
  have f: "fetched (snd (invoke example_client (answering ?r) (ServiceCall GetMetrics))) = [?q]"
    by (simp add: example_getMetrics)
  have i: "str_includes ''text/plain; version=0.0.4'' ''text/plain''" by code_simp
  have c: "content_type ?r = ''text/plain; version=0.0.4''" by (simp add: content_type_def)
  have "fst (invoke example_client (answering ?r) (ServiceCall GetMetrics))
          = method_returns (ServiceCall GetMetrics) (Str (js ''app_info 1''))"
    using C6_success_body [of example_client "answering ?r" "ServiceCall GetMetrics" ?q ?r
        "js ''app_info 1''"] f i c
    by (simp add: answering_def resp_ok_def)
  with f i show ?thesis by (simp add: method_returns_def)
qed

lemma example_collectionExists:
  "collectionExists example_client (answering r) (js ''docs'')
     = returning_exists (fst (handle_response r),
        \<lparr> fetched = [get_request example_client ''/collections/docs/exists''],
          body_reads = snd (handle_response r) \<rparr>)"
  using request_get [OF example_base, of "answering r" "''/collections/docs/exists''" r]
  by (simp add: collectionExists_def collection_path_def docs_encoded bind_sum_def request_at_def
        answering_def)

lemma no_content_every_method:
  assumes "fetched (snd (invoke this fetch c)) = [req]" and "fetch req = Inr response"
    and "resp_status response = 204"
  shows "body_reads (snd (invoke this fetch c)) = 0
         \<and> (shape_of c = PassThrough \<longrightarrow> fst (invoke this fetch c) = Inr Undefined)
         \<and> (shape_of c = ReturnsTrue \<longrightarrow> fst (invoke this fetch c) = Inr (Bool True))
         \<and> (shape_of c = ReadsExists
            \<longrightarrow> fst (invoke this fetch c) = Inl (unreadable ''undefined'' (js ''exists'')))"
  using invoke_value [OF assms(1,2) handle_response_204 [OF assms(3)]]
  by (simp add: method_returns_def)

lemma example_deleteCollection:
  "deleteCollection example_client (answering r) (js ''docs'')
     = returning_true (fst (handle_response r),
        \<lparr> fetched = [\<lparr> req_url = this_baseUrl example_client @ ''/collections/docs'',
                        req_method = Some ''DELETE'', req_headers = getAuthHeaders example_client,
                        req_body = None \<rparr>],
          body_reads = snd (handle_response r) \<rparr>)"
  using example_base
  by (simp add: deleteCollection_def collection_path_def docs_encoded bind_sum_def request_at_def
        request_def with_method_def spread_def answering_def)

lemma no_content_examples:
  "fst (invoke example_client
          (answering \<lparr> resp_status = 204, resp_headers = Map.empty,
                       resp_text = Inl (TypeError ''Body is unusable'') \<rparr>)
          (PointCall (GetPoint (js ''docs'') (Number (Fin 42 0)))))
     = Inr Undefined
   \<and> body_reads (snd (invoke example_client
          (answering \<lparr> resp_status = 204, resp_headers = Map.empty,
                       resp_text = Inl (TypeError ''Body is unusable'') \<rparr>)
          (PointCall (GetPoint (js ''docs'') (Number (Fin 42 0)))))) = 0
   \<and> fst (invoke example_client
          (answering \<lparr> resp_status = 204, resp_headers = Map.empty,
                       resp_text = Inl (TypeError ''Body is unusable'') \<rparr>)
          (CollectionCall (DeleteCollection (js ''docs''))))
     = Inr (Bool True)"
proof -
  let ?r = "\<lparr> resp_status = 204, resp_headers = Map.empty,
                       resp_text = Inl (TypeError ''Body is unusable'') \<rparr>"
  let ?g = "PointCall (GetPoint (js ''docs'') (Number (Fin 42 0)))"
  let ?d = "CollectionCall (DeleteCollection (js ''docs''))"
  have g: "fetched (snd (invoke example_client (answering ?r) ?g))
             = [get_request example_client ''/collections/docs/points/42'']"
    by (simp add: example_getPoint)
  have d: "fetched (snd (invoke example_client (answering ?r) ?d))
             = [\<lparr> req_url = this_baseUrl example_client @ ''/collections/docs'',
                        req_method = Some ''DELETE'', req_headers = getAuthHeaders example_client,
                        req_body = None \<rparr>]"
    by (simp add: example_deleteCollection returning_true_def split: sum.splits)
  from no_content_every_method [OF g, of ?r] no_content_every_method [OF d, of ?r]
  show ?thesis by (simp add: answering_def)
qed

text \<open>
  C7: on a 204 the shared routine yields the absent result and never reads the body, and
  the methods that hand that result on, or answer \<open>true\<close>, return without throwing
  (\<open>no_content_every_method\<close>).  \<open>collectionExists\<close> does not: against a 204 whose body
  cannot be read it issues its request, reads no body, and then reads \<open>exists\<close> from the
  absent result, which throws a TypeError.  The claim says that the call returns without
  throwing for every endpoint method.
\<close>

theorem C7_collectionExists_no_content:
  "invoke example_client
     (answering \<lparr> resp_status = 204, resp_headers = Map.empty,
                  resp_text = Inl (TypeError ''Body is unusable'') \<rparr>)
     (CollectionCall (CollectionExists (js ''docs'')))
   = (Inl (unreadable ''undefined'' (js ''exists'')),
      \<lparr> fetched = [get_request example_client ''/collections/docs/exists''], body_reads = 0 \<rparr>)"
  by (simp add: example_collectionExists handle_response_204 returning_exists_def)

section \<open>Claims about the connectivity test\<close>

lemma example_getVersion:
  "getVersion example_client (answering r)
     = (fst (handle_response r),
        \<lparr> fetched = [get_request example_client ''/''],
          body_reads = snd (handle_response r) \<rparr>)"
  using request_get [OF example_base, of "answering r" "''/''" r]
  by (simp add: getVersion_def request_at_def answering_def)

lemma testConnection_total:
  "(\<exists>r. fst (testConnection this fetch) = Inr r)
   \<and> (\<forall>e. fst (getVersion this fetch) = Inl e
        \<longrightarrow> fst (testConnection this fetch)
              = Inr \<lparr> connected = False, message = error_message e \<rparr>)
   \<and> (\<forall>v t. fst (getVersion this fetch) = Inr v \<and> v \<noteq> Undefined \<and> v \<noteq> Null
          \<and> ToString (field_of v (js ''version'')) = Inr t
        \<longrightarrow> fst (testConnection this fetch)
              = Inr \<lparr> connected = True, message = Str (js ''Connected to Qdrant '' @ t) \<rparr>)
   \<and> (\<forall>v. fst (getVersion this fetch) = Inr v \<and> (v = Undefined \<or> v = Null)
        \<longrightarrow> (\<exists>m. fst (testConnection this fetch) = Inr \<lparr> connected = False, message = m \<rparr>))
   \<and> snd (testConnection this fetch) = snd (getVersion this fetch)"
proof (intro conjI allI impI)
  show "\<exists>r. fst (testConnection this fetch) = Inr r"
    by (auto simp: testConnection_def try_catch_def bind_sum_def split: sum.splits)
next
  fix e
  assume "fst (getVersion this fetch) = Inl e"
  then show "fst (testConnection this fetch)
      = Inr \<lparr> connected = False, message = error_message e \<rparr>"
    by (simp add: testConnection_def try_catch_def bind_sum_def)
next
  fix v t
  assume a: "fst (getVersion this fetch) = Inr v \<and> v \<noteq> Undefined \<and> v \<noteq> Null
          \<and> ToString (field_of v (js ''version'')) = Inr t"
  then have "get_prop v (js ''version'') = Inr (field_of v (js ''version''))"
    by (cases v) (auto simp: field_of_def)
  with a show "fst (testConnection this fetch)
      = Inr \<lparr> connected = True, message = Str (js ''Connected to Qdrant '' @ t) \<rparr>"
    by (simp add: testConnection_def try_catch_def bind_sum_def connected_message_def)
next
  fix v
  assume "fst (getVersion this fetch) = Inr v \<and> (v = Undefined \<or> v = Null)"
  then show "\<exists>m. fst (testConnection this fetch) = Inr \<lparr> connected = False, message = m \<rparr>"
    by (auto simp: testConnection_def try_catch_def bind_sum_def connected_message_def)
next
  show "snd (testConnection this fetch) = snd (getVersion this fetch)"
    by (simp add: testConnection_def)
qed

lemma testConnection_examples:
  \<open>fst (testConnection example_client (\<lambda>req. Inl (TypeError ''fetch failed'')))
     = Inr \<lparr> connected = False, message = Str (js ''fetch failed'') \<rparr>
   \<and> fst (testConnection example_client
          (answering \<lparr> resp_status = 200,
                       resp_headers = [''Content-Type'' \<mapsto> ''application/json''],
                       resp_text = Inr (js ''{"result":{"title":"qdrant","version":"1.9.0"},"status":"ok","time":0}'') \<rparr>))
     = Inr \<lparr> connected = True, message = Str (js ''Connected to Qdrant 1.9.0'') \<rparr>\<close>
proof -
  let ?f = "\<lambda>req :: http_request. (Inl (TypeError ''fetch failed'') :: error + response)"
  let ?b = \<open>js ''{"result":{"title":"qdrant","version":"1.9.0"},"status":"ok","time":0}''\<close>
  let ?r = "\<lparr> resp_status = 200,
                       resp_headers = [''Content-Type'' \<mapsto> ''application/json''],
                       resp_text = Inr ?b \<rparr>"
  let ?v = "Object [(js ''title'', Str (js ''qdrant'')), (js ''version'', Str (js ''1.9.0''))]"
  have e: "fst (getVersion example_client ?f) = Inl (TypeError ''fetch failed'')"
    using example_base by (simp add: getVersion_def request_at_def request_def)
  have p: "JSON_parse ?b = Some (Object [(js ''result'', ?v), (js ''status'', Str (js ''ok'')),
                     (js ''time'', Number (Fin 0 0))])"
    by code_simp
  have i: "\<not> str_includes ''application/json'' ''text/plain''" by code_simp
  have "handle_response ?r = (Inr ?v, 1)"
    using handle_response_success [of ?r ?b] i
    by (simp add: resp_ok_def content_type_def p)
  then have v: "fst (getVersion example_client (answering ?r)) = Inr ?v"
    by (simp add: example_getVersion)
  have fv: "field_of ?v (js ''version'') = Str (js ''1.9.0'')" by code_simp
  have c: "js ''Connected to Qdrant '' @ js ''1.9.0'' = js ''Connected to Qdrant 1.9.0''"
    by (simp add: js_def)
  from testConnection_total [of example_client ?f, THEN conjunct2, THEN conjunct1, rule_format, OF e]
       testConnection_total [of example_client "answering ?r", THEN conjunct2, THEN conjunct2,
         THEN conjunct1, rule_format, of ?v "js ''1.9.0''"] v fv c
  show ?thesis by simp
qed

text \<open>
  C8: \<open>testConnection\<close> never propagates an error, and answers \<open>connected: false\<close> with the
  message of the error when the version call throws (\<open>testConnection_total\<close>).  But it does
  not answer \<open>connected: true\<close> whenever the version call succeeds: the message is built from
  \<open>version.version\<close> inside the \<open>try\<close>, and when the version call succeeds with the absent
  result, as it does for a JSON body without a \<open>result\<close> field, that read throws and the
  \<open>catch\<close> answers \<open>connected: false\<close> with the message of the TypeError.
\<close>

theorem C8_version_without_result:
  \<open>getVersion example_client
     (answering \<lparr> resp_status = 200,
                  resp_headers = [''Content-Type'' \<mapsto> ''application/json''],
                  resp_text = Inr (js ''{"title":"qdrant","version":"1.9.0"}'') \<rparr>)
   = (Inr Undefined, \<lparr> fetched = [get_request example_client ''/''], body_reads = 1 \<rparr>)
   \<and> fst (testConnection example_client
     (answering \<lparr> resp_status = 200,
                  resp_headers = [''Content-Type'' \<mapsto> ''application/json''],
                  resp_text = Inr (js ''{"title":"qdrant","version":"1.9.0"}'') \<rparr>))
   = Inr \<lparr> connected = False,
           message = error_message (unreadable ''undefined'' (js ''version'')) \<rparr>\<close>
proof -
  let ?b = \<open>js ''{"title":"qdrant","version":"1.9.0"}''\<close>
  let ?r = "\<lparr> resp_status = 200,
                       resp_headers = [''Content-Type'' \<mapsto> ''application/json''],
                       resp_text = Inr ?b \<rparr>"
  have p: "JSON_parse ?b
             = Some (Object [(js ''title'', Str (js ''qdrant'')), (js ''version'', Str (js ''1.9.0''))])"
    by code_simp
  have i: "\<not> str_includes ''application/json'' ''text/plain''" by code_simp
  have n: "js ''result'' \<noteq> js ''title''" "js ''result'' \<noteq> js ''version''"
    by code_simp+
  have h: "handle_response ?r = (Inr Undefined, 1)"
    using handle_response_success [of ?r ?b] i
    by (simp add: resp_ok_def content_type_def p n)
  show ?thesis
    by (simp add: testConnection_def example_getVersion h connected_message_def bind_sum_def
          try_catch_def)
qed

section \<open>Claims about the request bodies\<close>

text \<open>
  C10: every call of \<open>createFieldIndex\<close> (the request argument being an object, hence with
  distinct keys, or absent) hands to the request routine the method PUT and, as the body,
  the JSON text of \<open>{field_name: fieldName}\<close> merged with the request object, whose fields
  take precedence; that text always exists.  When the client has a base URL and the
  collection name can be encoded, exactly one request is issued, and it carries that
  body.  With the request omitted the body is exactly \<open>{"field_name": fieldName}\<close>.
\<close>

theorem C10_field_index_body:
  assumes "distinct (map fst (own_props req))"
  shows "createFieldIndex this fetch collectionName fieldName req wait =
           request_at this fetch
             (collection_path collectionName
                (''/index?wait='' @ bool_text (default_arg True wait)))
             \<lparr> init_method = Some ''PUT'',
               init_body = JSON_stringify (Object (merged_body fieldName (own_props req))),
               init_headers = None \<rparr>
         \<and> (\<exists>t. JSON_stringify (Object (merged_body fieldName (own_props req))) = Some t)
         \<and> (this_baseUrl this \<noteq> [] \<longrightarrow>
              (\<forall>enc. encodeURIComponent collectionName = Inr enc \<longrightarrow>
                 fetched (snd (createFieldIndex this fetch collectionName fieldName req wait)) =
                   [\<lparr> req_url = this_baseUrl this @ ''/collections/'' @ enc @ ''/index?wait=''
                                  @ bool_text (default_arg True wait),
                      req_method = Some ''PUT'',
                      req_headers = getAuthHeaders this,
                      req_body = JSON_stringify (Object (merged_body fieldName (own_props req))) \<rparr>]))
         \<and> (req = Undefined \<longrightarrow>
              JSON_stringify (Object (merged_body fieldName (own_props req)))
                = Some (0x7B # QuoteJSONString (js ''field_name'')
                          @ 0x3A # QuoteJSONString fieldName @ [0x7D]))"
proof (intro conjI impI allI)
  show c: "createFieldIndex this fetch collectionName fieldName req wait =
           request_at this fetch
             (collection_path collectionName
                (''/index?wait='' @ bool_text (default_arg True wait)))
             \<lparr> init_method = Some ''PUT'',
               init_body = JSON_stringify (Object (merged_body fieldName (own_props req))),
               init_headers = None \<rparr>"
    by (simp add: createFieldIndex_def with_body_def spread_merged_body [OF assms])
  show "\<exists>t. JSON_stringify (Object (merged_body fieldName (own_props req))) = Some t"
    by (simp add: JSON_stringify_def)
  show "fetched (snd (createFieldIndex this fetch collectionName fieldName req wait)) =
          [\<lparr> req_url = this_baseUrl this @ ''/collections/'' @ enc @ ''/index?wait=''
                         @ bool_text (default_arg True wait),
             req_method = Some ''PUT'',
             req_headers = getAuthHeaders this,
             req_body = JSON_stringify (Object (merged_body fieldName (own_props req))) \<rparr>]"
    if "this_baseUrl this \<noteq> []" and "encodeURIComponent collectionName = Inr enc" for enc
    unfolding c using that
    by (simp add: request_at_def request_def collection_path_def bind_sum_def spread_def Let_def
          split: sum.splits)
  show "JSON_stringify (Object (merged_body fieldName (own_props req)))
          = Some (0x7B # QuoteJSONString (js ''field_name'')
                    @ 0x3A # QuoteJSONString fieldName @ [0x7D])"
    if "req = Undefined"
    using that by (simp add: JSON_stringify_def merged_body_def)
qed

theorem C10_field_index_body_witness:
  \<open>fetched (snd (createFieldIndex example_client
       (answering \<lparr> resp_status = 200, resp_headers = Map.empty, resp_text = Inr [] \<rparr>)
       (js ''docs'') (js ''city'') (Object [(js ''field_schema'', Str (js ''keyword''))]) None))
     = [\<lparr> req_url = ''https://q.example:6333/collections/docs/index?wait=true'',
          req_method = Some ''PUT'',
          req_headers = [(''Content-Type'', ''application/json''), (''api-key'', ''secret'')],
          req_body = Some (js ''{"field_name":"city","field_schema":"keyword"}'') \<rparr>]
   \<and> fetched (snd (createFieldIndex example_client
       (answering \<lparr> resp_status = 200, resp_headers = Map.empty, resp_text = Inr [] \<rparr>)
       (js ''docs'') (js ''city'')
       (Object [(js ''field_schema'', Str (js ''keyword'')), (js ''field_name'', Str (js ''town''))])
       (Some False)))
     = [\<lparr> req_url = ''https://q.example:6333/collections/docs/index?wait=false'',
          req_method = Some ''PUT'',
          req_headers = [(''Content-Type'', ''application/json''), (''api-key'', ''secret'')],
          req_body = Some (js ''{"field_name":"town","field_schema":"keyword"}'') \<rparr>]
   \<and> fetched (snd (createFieldIndex example_client
       (answering \<lparr> resp_status = 200, resp_headers = Map.empty, resp_text = Inr [] \<rparr>)
       (js ''docs'') (js ''city'') Undefined None))
     = [\<lparr> req_url = ''https://q.example:6333/collections/docs/index?wait=true'',
          req_method = Some ''PUT'',
          req_headers = [(''Content-Type'', ''application/json''), (''api-key'', ''secret'')],
          req_body = Some (js ''{"field_name":"city"}'') \<rparr>]\<close>
proof -
  let ?f = "answering \<lparr> resp_status = 200, resp_headers = Map.empty, resp_text = Inr [] \<rparr>"
  let ?a = "Object [(js ''field_schema'', Str (js ''keyword''))]"
  let ?b = "Object [(js ''field_schema'', Str (js ''keyword'')), (js ''field_name'', Str (js ''town''))]"
  have da: "distinct (map fst (own_props ?a))" by simp
  have db: "distinct (map fst (own_props ?b))" by code_simp
  have du: "distinct (map fst (own_props Undefined))" by simp
  have u: "this_baseUrl example_client = ''https://q.example:6333''"
    by (simp add: example_client_def createQdrantClient_def)
  have h: "getAuthHeaders example_client
             = [(''Content-Type'', ''application/json''), (''api-key'', ''secret'')]"
    by (simp add: example_client_def createQdrantClient_def getAuthHeaders_def)
  have ta: \<open>JSON_stringify (Object (merged_body (js ''city'') [(js ''field_schema'', Str (js ''keyword''))]))
              = Some (js ''{"field_name":"city","field_schema":"keyword"}'')\<close>
    by code_simp
  have tb: \<open>JSON_stringify (Object (merged_body (js ''city'')
                 [(js ''field_schema'', Str (js ''keyword'')), (js ''field_name'', Str (js ''town''))]))
              = Some (js ''{"field_name":"town","field_schema":"keyword"}'')\<close>
    by code_simp
  have tu: \<open>JSON_stringify (Object (merged_body (js ''city'') []))
              = Some (js ''{"field_name":"city"}'')\<close>
    by code_simp
  from C10_field_index_body [OF da, of example_client ?f "js ''docs''" "js ''city'' " None,
         THEN conjunct2, THEN conjunct2, THEN conjunct1, rule_format, OF example_base docs_encoded]
       C10_field_index_body [OF db, of example_client ?f "js ''docs''" "js ''city'' " "Some False",
         THEN conjunct2, THEN conjunct2, THEN conjunct1, rule_format, OF example_base docs_encoded]
       C10_field_index_body [OF du, of example_client ?f "js ''docs''" "js ''city'' " None,
         THEN conjunct2, THEN conjunct2, THEN conjunct1, rule_format, OF example_base docs_encoded]
  show ?thesis
    by (simp add: u h ta tb tu default_arg_def bool_text_def)
qed

section \<open>Percent-decoding a percent-encoded text\<close>





































section \<open>Parsing a serialized value\<close>

text \<open>
  \<open>JSON.parse\<close> reads the text that \<open>JSON.stringify\<close> writes for a value as the JSON image
  of the value.  The scanner of string literals reads a quoted string back, the scanner of
  number literals reads the text of a number back, whichever of its four layouts
  \<open>Number::toString\<close> chose; so the text lexes to the tokens of the image, which the
  automaton assembles into the image.
\<close>

subsection \<open>String literals\<close>















subsection \<open>Number literals\<close>












subsection \<open>Decimal digits\<close>




lemma digits_of_small: "n < 10 \<Longrightarrow> digits_of n = [digit_char n]"
  by simp

lemma digits_of_large:
  "\<not> n < 10 \<Longrightarrow> digits_of n = digits_of (n div 10) @ [digit_char (n mod 10)]"
  by simp

declare digits_of.simps [simp del]

lemma digits_of_nonempty: "digits_of n \<noteq> []"
  by (cases "n < 10") (simp_all add: digits_of_small digits_of_large)







lemma length_digits_of_one: "length (digits_of n) = 1 \<longleftrightarrow> n < 10"
  using digits_of_nonempty [of "n div 10"]
  by (cases "n < 10") (auto simp: digits_of_small digits_of_large)


subsection \<open>Trailing zeros\<close>

lemma strip_zeros_Nil: "strip_zeros [] = []"
  by (simp add: strip_zeros_def)

lemma strip_zeros_snoc:
  "strip_zeros (ds @ [c]) = (if c = CHR ''0'' then strip_zeros ds else ds @ [c])"
  by (simp add: strip_zeros_def)





lemma strip_zeros_last: "strip_zeros ds \<noteq> [] \<Longrightarrow> last (strip_zeros ds) \<noteq> CHR ''0''"
  by (induction ds rule: rev_induct) (auto simp: strip_zeros_Nil strip_zeros_snoc split: if_splits)





subsection \<open>Numbers\<close>












lemma js_zero: "(of_char (CHR ''0'') :: 16 word) = 0x30"
  by simp






subsection \<open>Tokens\<close>





lemma map_option_append:
  "map_option ((@) xs) (map_option ((@) ys) r) = map_option ((@) (xs @ ys)) r"
  by (cases r) simp_all

















subsection \<open>The automaton\<close>





lemma lex_Nil: "lex [] = Some []"
  by simp


section \<open>Claims about \<open>createCollection\<close>\<close>





end
